theory Spec2Isabelle
  imports Main "HOL-Library.Word" "HOL-Library.Char_ord" "HOL-Library.List_Lexorder"
    "HOL-Library.Signed_Division"
begin

section \<open>Overview\<close>

text \<open>
  A shallow embedding of the stack lifecycle helpers of the rack's AWS provider
  (\<open>provider/aws/helpers.go\<close>), of the condition block of its application template
  (\<open>provider/aws/formation/app.json.tmpl\<close>) and of the manifest's validation. Go
  functions are HOL functions of the same name; what a function reads or changes
  outside its arguments (the cache, the clock, the provider's answers, the random
  source, standard output) is passed in and returned; an error return and a panic are
  values. All definitions come first, the properties proved of them after.
\<close>

section \<open>Status normalisation (helpers.go, lines 246 to 280)\<close>

text \<open>
  \<open>humanStatus\<close> is a \<open>switch\<close> over the raw CloudFormation status. The default branch
  prints a line on standard output before it returns, so the model threads the lines
  printed so far and returns the result together with the new output.
\<close>

definition humanStatus :: "string \<Rightarrow> string list \<Rightarrow> string \<times> string list" where
  "humanStatus original stdout =
     (if original = '''' then (''new'', stdout)
      else if original = ''CREATE_IN_PROGRESS'' then (''creating'', stdout)
      else if original = ''CREATE_COMPLETE'' then (''running'', stdout)
      else if original = ''DELETE_FAILED'' then (''running'', stdout)
      else if original = ''DELETE_IN_PROGRESS'' then (''deleting'', stdout)
      else if original = ''ROLLBACK_IN_PROGRESS'' then (''rollback'', stdout)
      else if original = ''ROLLBACK_COMPLETE'' then (''failed'', stdout)
      else if original = ''UPDATE_IN_PROGRESS'' then (''updating'', stdout)
      else if original = ''UPDATE_COMPLETE_CLEANUP_IN_PROGRESS'' then (''updating'', stdout)
      else if original = ''UPDATE_COMPLETE'' then (''running'', stdout)
      else if original = ''UPDATE_ROLLBACK_IN_PROGRESS'' then (''rollback'', stdout)
      else if original = ''UPDATE_ROLLBACK_COMPLETE_CLEANUP_IN_PROGRESS'' then (''rollback'', stdout)
      else if original = ''UPDATE_ROLLBACK_COMPLETE'' then (''running'', stdout)
      else if original = ''UPDATE_ROLLBACK_FAILED'' then (''failed'', stdout)
      else (''unknown'', stdout @ [''unknown status: '' @ original @ [CHR 0x0A]]))"

text \<open>
  The table of the specification (section 4.6), written down from its words, in its order:
  raw status and canonical state. Anything outside the table is \<open>unknown\<close>.
\<close>

definition spec_status_table :: "(string \<times> string) list" where
  "spec_status_table =
     [('''', ''new''),
      (''CREATE_IN_PROGRESS'', ''creating''),
      (''CREATE_COMPLETE'', ''running''),
      (''UPDATE_IN_PROGRESS'', ''updating''),
      (''UPDATE_COMPLETE_CLEANUP_IN_PROGRESS'', ''updating''),
      (''UPDATE_COMPLETE'', ''running''),
      (''UPDATE_ROLLBACK_COMPLETE'', ''running''),
      (''DELETE_IN_PROGRESS'', ''deleting''),
      (''DELETE_FAILED'', ''running''),
      (''ROLLBACK_IN_PROGRESS'', ''rollback''),
      (''UPDATE_ROLLBACK_IN_PROGRESS'', ''rollback''),
      (''UPDATE_ROLLBACK_COMPLETE_CLEANUP_IN_PROGRESS'', ''rollback''),
      (''ROLLBACK_COMPLETE'', ''failed''),
      (''UPDATE_ROLLBACK_FAILED'', ''failed'')]"

definition spec_Normalize :: "string \<Rightarrow> string" where
  "spec_Normalize status =
     (case map_of spec_status_table status of Some canonical \<Rightarrow> canonical | None \<Rightarrow> ''unknown'')"

section \<open>Template conditions (formation/app.json.tmpl)\<close>

text \<open>
  The \<open>Conditions\<close> block of the application template. A template parameter resolves
  (\<open>Ref\<close>) to the value the stack holds for it; \<open>Fn::Equals\<close> compares that value with a
  literal, \<open>Fn::And\<close>, \<open>Fn::Or\<close> and \<open>Fn::Not\<close> are the connectives, and
  \<open>{ "Condition": name }\<close> is the named condition. Each condition of lines 10 to 23
  that the service toggles use is one definition, named after the condition.
\<close>

type_synonym parameter_values = "string \<rightharpoonup> string"

definition Ref :: "parameter_values \<Rightarrow> string \<Rightarrow> string option" where
  "Ref ps name = ps name"

definition Fn_Equals :: "string option \<Rightarrow> string \<Rightarrow> bool" where
  "Fn_Equals v lit = (v = Some lit)"

definition FargateServicesBase :: "parameter_values \<Rightarrow> bool" where
  "FargateServicesBase ps = Fn_Equals (Ref ps ''FargateServices'') ''Yes''"

definition FargateServicesSpot :: "parameter_values \<Rightarrow> bool" where
  "FargateServicesSpot ps = Fn_Equals (Ref ps ''FargateServices'') ''Spot''"

definition FargateServicesEither :: "parameter_values \<Rightarrow> bool" where
  "FargateServicesEither ps = (FargateServicesBase ps \<or> FargateServicesSpot ps)"

definition EC2Services :: "parameter_values \<Rightarrow> bool" where
  "EC2Services ps = (\<not> FargateServicesEither ps)"

definition Private :: "parameter_values \<Rightarrow> bool" where
  "Private ps = Fn_Equals (Ref ps ''Private'') ''Yes''"

definition Isolate :: "parameter_values \<Rightarrow> bool" where
  "Isolate ps = (Private ps \<and> Fn_Equals (Ref ps ''Isolate'') ''Yes'')"

definition IsolateServices :: "parameter_values \<Rightarrow> bool" where
  "IsolateServices ps = (FargateServicesEither ps \<or> Isolate ps)"

text \<open>
  Line 343, in the properties every service sub-stack receives:
  \<open>"Isolate": { "Fn::If": [ "IsolateServices", "Yes", "No" ] }\<close>.
\<close>

definition service_Isolate :: "parameter_values \<Rightarrow> string" where
  "service_Isolate ps = (if IsolateServices ps then ''Yes'' else ''No'')"

section \<open>Errors, durations and the provider's data (helpers.go)\<close>

text \<open>
  A Go \<open>error\<close> is a value: an \<open>awserr.Error\<close> carries a code and a message, every other
  error (\<open>fmt.Errorf\<close>, a library's error) a message only. A panic of the Go runtime is
  kept apart from an error return.
\<close>

datatype error = AwsError string string | Error string

datatype panic =
  SliceBoundsOutOfRange | IndexOutOfRange | InvalidArgumentToIntn | NilDereference

type_synonym bytes = "8 word list"

text \<open>\<open>time.Duration\<close> counts nanoseconds.\<close>

type_synonym Duration = int

definition Second :: Duration where
  "Second = 1000000000"

definition Hour :: Duration where
  "Hour = 3600 * Second"

text \<open>
  The parts of the CloudFormation SDK's types that the helpers read or write. A pointer
  field that the code leaves unset is \<open>None\<close>.
\<close>

record Parameter =
  ParameterKey :: string
  ParameterValue :: "string option"
  UsePreviousValue :: "bool option"

record Tag =
  Key :: string
  Value :: string

record Stack =
  StackName :: string
  StackStatus :: string
  Parameters :: "Parameter list"
  Tags :: "Tag list"

record UpdateStackInput =
  req_Capabilities :: "string list"
  req_StackName :: string
  req_NotificationARNs :: "string list"
  req_ClientRequestToken :: "string option"
  req_TemplateURL :: "string option"
  req_UsePreviousTemplate :: "bool option"
  req_Parameters :: "Parameter list"
  req_Tags :: "Tag list"

text \<open>
  \<open>Formation\<close> (lines 42 to 57). A Go map that the code only ranges over is an association
  list; its keys are the first components.
\<close>

record FormationParameter =
  Default :: "string option"
  Description :: string
  NoEcho :: bool
  Type :: string

record FormationResource =
  res_Type :: string
  res_Properties :: "(string \<times> string) list"

record Formation =
  formation_Parameters :: "(string \<times> FormationParameter) list"
  formation_Resources :: "(string \<times> FormationResource) list"

record URL =
  Scheme :: string
  Path :: string

record Provider =
  Region :: string
  SettingsBucket :: string
  CloudformationTopic :: string
  Cluster :: string
  SkipCache :: bool
  IsTest :: bool

section \<open>The read-through cache (package cache)\<close>

text \<open>
  The helpers store the answers of the provider and release labels in the cache, and
  key them by a stack name (a string pointer, \<open>nil\<close> when all stacks are described), by
  a plain string, or by the request.
\<close>

record ContainerInstance =
  ContainerInstanceArn :: string
  Status :: string

record DescribeContainerInstancesInput =
  dci_Cluster :: string
  dci_ContainerInstances :: "string list"

record Task =
  TaskDefinitionArn :: string

record Failure =
  failure_Arn :: string
  failure_Reason :: string

record DescribeTasksInput =
  dt_Cluster :: string
  dt_Tasks :: "string list"

record DescribeTasksOutput =
  Failures :: "Failure list"
  Tasks :: "Task list"

text \<open>\<open>DockerLabels\<close> is a \<open>map[string]*string\<close>: a key may be bound to \<open>nil\<close>.\<close>

record ContainerDefinition =
  DockerLabels :: "(string \<times> string option) list"

record TaskDefinition =
  ContainerDefinitions :: "ContainerDefinition list"

datatype cache_key =
  KeyNil
  | KeyString string
  | KeyContainerInstances DescribeContainerInstancesInput
  | KeyTasks DescribeTasksInput
  | KeyTaskDefinition string

datatype cache_value =
  CachedStacks "Stack list"
  | CachedContainerInstances "ContainerInstance list"
  | CachedTasks DescribeTasksOutput
  | CachedTaskDefinition TaskDefinition
  | CachedString string

text \<open>
  The state the helpers work on: the cache's entries (operation and key, value, expiry),
  the cache's global bypass flag, the clock, and two records of what was done so far,
  oldest first: the calls of \<open>cache.Clear\<close> (operation and key), and the update requests
  that reached the provider.
\<close>

record world =
  entries :: "((string \<times> cache_key) \<times> (cache_value \<times> int)) list"
  bypass :: bool
  clock :: int
  Clear_calls :: "(string \<times> cache_key) list"
  UpdateStack_calls :: "UpdateStackInput list"

text \<open>
  Modelled from the spec: package \<open>cache\<close> (\<open>cache.Get\<close>, \<open>cache.Set\<close>, \<open>cache.Clear\<close>) is
  not among the sources. Section 4.4 gives its contract: \<open>Get(operation, key)\<close> returns
  the value and whether it was found, \<open>Set(operation, key, value, ttl)\<close> stores an entry
  with a time to live, \<open>Clear(operation, key-or-wildcard)\<close> removes entries; keys are
  compared structurally; a read after expiry is a miss (section 3); when the global
  bypass flag is set every \<open>Get\<close> is a forced miss and every \<open>Set\<close> is a no-op. The
  wildcard is the \<open>nil\<close> key, with which \<open>Clear\<close> removes every entry of the operation.
  No failure of \<open>Set\<close> is described, so it returns no error. Every call of \<open>Clear\<close> is
  also written to the record of calls.
\<close>

definition cache_Get :: "string \<Rightarrow> cache_key \<Rightarrow> world \<Rightarrow> cache_value option" where
  "cache_Get operation key w =
     (if bypass w then None
      else case map_of (entries w) (operation, key) of
             None \<Rightarrow> None
           | Some (v, expiry) \<Rightarrow> if expiry < clock w then None else Some v)"

definition cache_Set ::
  "string \<Rightarrow> cache_key \<Rightarrow> cache_value \<Rightarrow> Duration \<Rightarrow> world \<Rightarrow> error option \<times> world" where
  "cache_Set operation key v ttl w =
     (if bypass w then (None, w)
      else (None, w\<lparr>entries :=
                      ((operation, key), (v, clock w + ttl))
                      # filter (\<lambda>e. fst e \<noteq> (operation, key)) (entries w)\<rparr>))"

definition cache_Clear :: "string \<Rightarrow> cache_key \<Rightarrow> world \<Rightarrow> world" where
  "cache_Clear operation key w =
     (case key of
        KeyNil \<Rightarrow>
          w\<lparr>entries := filter (\<lambda>e. fst (fst e) \<noteq> operation) (entries w),
            Clear_calls := Clear_calls w @ [(operation, key)]\<rparr>
      | _ \<Rightarrow>
          w\<lparr>entries := filter (\<lambda>e. fst e \<noteq> (operation, key)) (entries w),
            Clear_calls := Clear_calls w @ [(operation, key)]\<rparr>)"

section \<open>The collaborators\<close>

text \<open>
  What the helpers call outside this repository's sources: the CloudFormation and ECS
  clients, the object store, and the \<open>encoding/json\<close> and \<open>net/url\<close> libraries. Each is a
  function from the call's input to its result; the helpers modelled here make each call
  at most once, so one answer per input is all they can observe.
  \<open>DescribeStacksPages\<close> answers with the pages of stacks it would hand to its callback.
\<close>

record aws =
  DescribeStacksPages :: "string option \<Rightarrow> error + Stack list list"
  DescribeContainerInstances ::
    "DescribeContainerInstancesInput \<Rightarrow> error + ContainerInstance list"
  DescribeTasks :: "DescribeTasksInput \<Rightarrow> error + DescribeTasksOutput"
  DescribeTaskDefinition :: "string \<Rightarrow> error + TaskDefinition"
  UpdateStack :: "UpdateStackInput \<Rightarrow> error option"
  ObjectStore :: "string \<Rightarrow> string \<Rightarrow> bytes \<Rightarrow> error + string"
  json_Unmarshal :: "bytes \<Rightarrow> error + Formation"
  url_Parse :: "string \<Rightarrow> error + URL"

section \<open>Description helpers (helpers.go, lines 606 to 694)\<close>

definition describeContainerInstances ::
  "aws \<Rightarrow> Provider \<Rightarrow> DescribeContainerInstancesInput \<Rightarrow> world
     \<Rightarrow> (error + ContainerInstance list) \<times> world" where
  "describeContainerInstances a p input w =
     (case cache_Get ''describeContainerInstances'' (KeyContainerInstances input) w of
        Some (CachedContainerInstances res) \<Rightarrow> (Inr res, w)
      | _ \<Rightarrow>
         (case DescribeContainerInstances a input of
            Inl err \<Rightarrow> (Inl err, w)
          | Inr res \<Rightarrow>
             if \<not> SkipCache p then
               (case cache_Set ''describeContainerInstances'' (KeyContainerInstances input)
                       (CachedContainerInstances res) (5 * Second) w of
                  (Some err, w') \<Rightarrow> (Inl err, w')
                | (None, w') \<Rightarrow> (Inr res, w'))
             else (Inr res, w)))"

definition stack_key :: "string option \<Rightarrow> cache_key" where
  "stack_key name = (case name of None \<Rightarrow> KeyNil | Some n \<Rightarrow> KeyString n)"

definition describeStacks ::
  "aws \<Rightarrow> Provider \<Rightarrow> string option \<Rightarrow> world \<Rightarrow> (error + Stack list) \<times> world" where
  "describeStacks a p input_StackName w =
     (case cache_Get ''describeStacks'' (stack_key input_StackName) w of
        Some (CachedStacks stacks) \<Rightarrow> (Inr stacks, w)
      | _ \<Rightarrow>
         (case DescribeStacksPages a input_StackName of
            Inl err \<Rightarrow> (Inl err, w)
          | Inr pages \<Rightarrow>
             let stacks = concat pages in
             if \<not> SkipCache p then
               (case cache_Set ''describeStacks'' (stack_key input_StackName)
                       (CachedStacks stacks) (5 * Second) w of
                  (Some err, w') \<Rightarrow> (Inl err, w')
                | (None, w') \<Rightarrow> (Inr stacks, w'))
             else (Inr stacks, w)))"

definition describeStack ::
  "aws \<Rightarrow> Provider \<Rightarrow> string \<Rightarrow> world \<Rightarrow> (error + Stack) \<times> world" where
  "describeStack a p name w =
     (case describeStacks a p (Some name) w of
        (Inl (AwsError code msg), w') \<Rightarrow>
          if code = ''ValidationError'' then (Inl (Error (''stack not found: '' @ name)), w')
          else (Inl (AwsError code msg), w')
      | (Inl err, w') \<Rightarrow> (Inl err, w')
      | (Inr stacks, w') \<Rightarrow>
          (case stacks of
             [stack] \<Rightarrow> (Inr stack, w')
           | _ \<Rightarrow> (Inl (Error (''could not load stack: '' @ name)), w')))"

section \<open>Task and release lookups (helpers.go, lines 979 to 1022 and 1185 to 1238)\<close>

definition describeTaskDefinition ::
  "aws \<Rightarrow> Provider \<Rightarrow> string \<Rightarrow> world \<Rightarrow> (error + TaskDefinition) \<times> world" where
  "describeTaskDefinition a p input_TaskDefinition w =
     (case cache_Get ''describeTaskDefinition'' (KeyTaskDefinition input_TaskDefinition) w of
        Some (CachedTaskDefinition td) \<Rightarrow> (Inr td, w)
      | _ \<Rightarrow>
         (case DescribeTaskDefinition a input_TaskDefinition of
            Inl (AwsError code msg) \<Rightarrow>
              if code = ''ValidationError''
              then (Inl (Error (''task definition not found: '' @ input_TaskDefinition)), w)
              else (Inl (AwsError code msg), w)
          | Inl err \<Rightarrow> (Inl err, w)
          | Inr res \<Rightarrow>
             if \<not> SkipCache p then
               (case cache_Set ''describeTaskDefinition'' (KeyTaskDefinition input_TaskDefinition)
                       (CachedTaskDefinition res) (24 * Hour) w of
                  (Some err, w1) \<Rightarrow> (Inl err, w1)
                | (None, w1) \<Rightarrow> (Inr res, w1))
             else (Inr res, w)))"

definition describeTasks ::
  "aws \<Rightarrow> Provider \<Rightarrow> DescribeTasksInput \<Rightarrow> world
     \<Rightarrow> (error + DescribeTasksOutput) \<times> world" where
  "describeTasks a p input w =
     (case cache_Get ''describeTasks'' (KeyTasks input) w of
        Some (CachedTasks res) \<Rightarrow> (Inr res, w)
      | _ \<Rightarrow>
         (case DescribeTasks a input of
            Inl err \<Rightarrow> (Inl err, w)
          | Inr res \<Rightarrow>
             if \<not> SkipCache p \<and> length (Failures res) = 0 then
               (case cache_Set ''describeTasks'' (KeyTasks input) (CachedTasks res)
                       (10 * Second) w of
                  (Some err, w1) \<Rightarrow> (Inl err, w1)
                | (None, w1) \<Rightarrow> (Inr res, w1))
             else (Inr res, w)))"

text \<open>
  \<open>taskDefinitionRelease\<close> indexes \<open>ContainerDefinitions[0]\<close> (the test before it,
  \<open>len(...) < 0\<close>, never holds), which panics on an empty list. Its \<open>cache.Set\<close>, and
  the one of \<open>taskRelease\<close>, are not guarded by \<open>SkipCache\<close>. The result is a panic, or
  the pair of Go results: an error, or the release.
\<close>

definition taskDefinitionRelease ::
  "aws \<Rightarrow> Provider \<Rightarrow> string \<Rightarrow> world \<Rightarrow> (panic + error + string) \<times> world" where
  "taskDefinitionRelease a p arn w =
     (case cache_Get ''taskDefinitionRelease'' (KeyString arn) w of
        Some (CachedString release) \<Rightarrow> (Inr (Inr release), w)
      | _ \<Rightarrow>
         (case describeTaskDefinition a p arn w of
            (Inl err, w1) \<Rightarrow> (Inr (Inl err), w1)
          | (Inr td, w1) \<Rightarrow>
             (case ContainerDefinitions td of
                [] \<Rightarrow> (Inl IndexOutOfRange, w1)
              | cd # _ \<Rightarrow>
                 (case map_of (DockerLabels cd) ''convox.release'' of
                    Some (Some release) \<Rightarrow>
                      (case cache_Set ''taskDefinitionRelease'' (KeyString arn)
                              (CachedString release) (24 * Hour) w1 of
                         (Some err, w2) \<Rightarrow> (Inr (Inl err), w2)
                       | (None, w2) \<Rightarrow> (Inr (Inr release), w2))
                  | _ \<Rightarrow>
                      (Inr (Inl (Error (''no convox.release label for task definition: ''
                                        @ arn))), w1)))))"

definition taskRelease ::
  "aws \<Rightarrow> Provider \<Rightarrow> string \<Rightarrow> world \<Rightarrow> (panic + error + string) \<times> world" where
  "taskRelease a p id' w =
     (case cache_Get ''taskRelease'' (KeyString id') w of
        Some (CachedString release) \<Rightarrow> (Inr (Inr release), w)
      | _ \<Rightarrow>
         (case describeTasks a p \<lparr>dt_Cluster = Cluster p, dt_Tasks = [id']\<rparr> w of
            (Inl err, w1) \<Rightarrow> (Inr (Inl err), w1)
          | (Inr t, w1) \<Rightarrow>
             (case Tasks t of
                [] \<Rightarrow> (Inr (Inl (Error (''task not found: '' @ id'))), w1)
              | task # _ \<Rightarrow>
                 (case taskDefinitionRelease a p (TaskDefinitionArn task) w1 of
                    (Inl pn, w2) \<Rightarrow> (Inl pn, w2)
                  | (Inr (Inl err), w2) \<Rightarrow> (Inr (Inl err), w2)
                  | (Inr (Inr release), w2) \<Rightarrow>
                     (case cache_Set ''taskRelease'' (KeyString id') (CachedString release)
                             (24 * Hour) w2 of
                        (Some err, w3) \<Rightarrow> (Inr (Inl err), w3)
                      | (None, w3) \<Rightarrow> (Inr (Inr release), w3))))))"

section \<open>Updating a stack (helpers.go, lines 231 to 244, 282 to 290, 1046 to 1057, 1243 to 1350)\<close>

definition parseFormation :: "aws \<Rightarrow> bytes \<Rightarrow> error + Formation" where
  "parseFormation a data = json_Unmarshal a data"

text \<open>
  \<open>formationParameters\<close> returns the set of parameter names as a \<open>map[string]bool\<close>; the
  model returns the names, each once.
\<close>

definition formationParameters :: "aws \<Rightarrow> bytes \<Rightarrow> error + string list" where
  "formationParameters a data =
     (case parseFormation a data of
        Inl err \<Rightarrow> Inl err
      | Inr f \<Rightarrow> Inr (remdups (map fst (formation_Parameters f))))"

definition objectURL :: "aws \<Rightarrow> Provider \<Rightarrow> string \<Rightarrow> error + string" where
  "objectURL a p ou =
     (case url_Parse a ou of
        Inl err \<Rightarrow> Inl err
      | Inr u \<Rightarrow>
         if Scheme u \<noteq> ''object'' then Inl (Error ''only supports object:// urls'')
         else Inr (''https://s3.'' @ Region p @ ''.amazonaws.com/'' @ SettingsBucket p @ Path u))"

text \<open>
  Lines 1313 to 1325: the loop over the sorted parameter names. \<open>changes\<close> is only looked
  up, so it is a map; \<open>pexisting\<close> is the set of the live stack's parameter names.
\<close>

fun updateStack_parameters ::
  "(string \<rightharpoonup> string) \<Rightarrow> string set \<Rightarrow> string list \<Rightarrow> Parameter list" where
  "updateStack_parameters changes pexisting [] = []"
| "updateStack_parameters changes pexisting (param # rest) =
     (case changes param of
        Some v \<Rightarrow>
          \<lparr>ParameterKey = param, ParameterValue = Some v, UsePreviousValue = None\<rparr>
          # updateStack_parameters changes pexisting rest
      | None \<Rightarrow>
          if param \<in> pexisting then
            \<lparr>ParameterKey = param, ParameterValue = None, UsePreviousValue = Some True\<rparr>
            # updateStack_parameters changes pexisting rest
          else updateStack_parameters changes pexisting rest)"

text \<open>
  Lines 1329 to 1342: the supplied tags, a Go map, are ranged over for their keys, the
  keys are sorted, and one tag per key is appended with the map's value for it.
\<close>

definition updateStack_tags :: "(string \<times> string) list \<Rightarrow> Tag list" where
  "updateStack_tags tags =
     map (\<lambda>key. \<lparr>Key = key, Value = (case map_of tags key of Some v \<Rightarrow> v | None \<Rightarrow> '''')\<rparr>)
         (sort (remdups (map fst tags)))"

text \<open>
  Lines 1247 to 1342: the request, built from the description of the live stack. The
  template is \<open>None\<close> for Go's \<open>nil\<close>.
\<close>

definition updateStack_request ::
  "aws \<Rightarrow> Provider \<Rightarrow> string \<Rightarrow> bytes option \<Rightarrow> (string \<rightharpoonup> string)
     \<Rightarrow> (string \<times> string) list \<Rightarrow> string \<Rightarrow> Stack \<Rightarrow> error + UpdateStackInput" where
  "updateStack_request a p name template changes tags id' stack =
     (let req = \<lparr>req_Capabilities = [''CAPABILITY_IAM''],
                 req_StackName = name,
                 req_NotificationARNs = [CloudformationTopic p],
                 req_ClientRequestToken = (if id' \<noteq> '''' then Some id' else None),
                 req_TemplateURL = None,
                 req_UsePreviousTemplate = None,
                 req_Parameters = [],
                 req_Tags = []\<rparr>;
          pexisting = map ParameterKey (Parameters stack);
          chosen =
            (case template of
               Some t \<Rightarrow>
                 (let key = (if IsTest p then ''test-key'' else '''') in
                  case ObjectStore a '''' key t of
                    Inl err \<Rightarrow> Inl err
                  | Inr ou \<Rightarrow>
                     (case objectURL a p ou of
                        Inl err \<Rightarrow> Inl err
                      | Inr tu \<Rightarrow>
                         (case formationParameters a t of
                            Inl err \<Rightarrow> Inl err
                          | Inr fp \<Rightarrow> Inr (req\<lparr>req_TemplateURL := Some tu\<rparr>, fp))))
             | None \<Rightarrow> Inr (req\<lparr>req_UsePreviousTemplate := Some True\<rparr>, remdups pexisting))
      in case chosen of
           Inl err \<Rightarrow> Inl err
         | Inr (req', params) \<Rightarrow>
            Inr (req'\<lparr>req_Parameters :=
                        updateStack_parameters changes (set pexisting) (sort params),
                      req_Tags := Tags stack @ updateStack_tags tags\<rparr>))"

text \<open>
  Lines 1244 to 1245, and again 1346 to 1347: \<open>cache.Clear("describeStacks", nil)\<close>, then
  \<open>cache.Clear("describeStacks", name)\<close>.
\<close>

definition cleared :: "string \<Rightarrow> world \<Rightarrow> world" where
  "cleared name w =
     cache_Clear ''describeStacks'' (KeyString name) (cache_Clear ''describeStacks'' KeyNil w)"

text \<open>
  \<open>updateStack\<close> itself: clear, describe, build the request (an error there returns at
  once), submit, clear again, return the provider's error.
\<close>

definition updateStack ::
  "aws \<Rightarrow> Provider \<Rightarrow> string \<Rightarrow> bytes option \<Rightarrow> (string \<rightharpoonup> string)
     \<Rightarrow> (string \<times> string) list \<Rightarrow> string \<Rightarrow> world \<Rightarrow> error option \<times> world" where
  "updateStack a p name template changes tags id' w =
     (let w2 = cleared name w
      in case describeStack a p name w2 of
           (Inl err, w3) \<Rightarrow> (Some err, w3)
         | (Inr stack, w3) \<Rightarrow>
            (case updateStack_request a p name template changes tags id' stack of
               Inl err \<Rightarrow> (Some err, w3)
             | Inr req \<Rightarrow>
                (let err = UpdateStack a req;
                     w4 = w3\<lparr>UpdateStack_calls := UpdateStack_calls w3 @ [req]\<rparr>;
                     w6 = cleared name w4
                 in (err, w6))))"

section \<open>A concrete stack, provider and update\<close>

text \<open>
  The example of the specification's section 8: a live stack with parameters \<open>A = 1\<close> and
  \<open>B = 2\<close>, a template that declares \<open>A\<close>, \<open>B\<close> and \<open>C\<close>, and the change \<open>A = 9\<close>. The
  stack carries one tag, \<open>env = old\<close>.
\<close>

definition example_stack :: Stack where
  "example_stack =
     \<lparr>StackName = ''app'', StackStatus = ''UPDATE_COMPLETE'',
      Parameters =
        [\<lparr>ParameterKey = ''A'', ParameterValue = Some ''1'', UsePreviousValue = None\<rparr>,
         \<lparr>ParameterKey = ''B'', ParameterValue = Some ''2'', UsePreviousValue = None\<rparr>],
      Tags = [\<lparr>Key = ''env'', Value = ''old''\<rparr>]\<rparr>"

definition example_parameter :: FormationParameter where
  "example_parameter = \<lparr>Default = None, Description = '''', NoEcho = False, Type = ''String''\<rparr>"

definition example_formation :: Formation where
  "example_formation =
     \<lparr>formation_Parameters =
        [(''C'', example_parameter), (''A'', example_parameter), (''B'', example_parameter)],
      formation_Resources = []\<rparr>"

definition example_aws :: aws where
  "example_aws =
     \<lparr>DescribeStacksPages = (\<lambda>name. Inr [[example_stack]]),
      DescribeContainerInstances = (\<lambda>input. Inr []),
      DescribeTasks =
        (\<lambda>input. Inr \<lparr>Failures = [], Tasks = [\<lparr>TaskDefinitionArn = ''arn:task-definition''\<rparr>]\<rparr>),
      DescribeTaskDefinition =
        (\<lambda>arn. Inr \<lparr>ContainerDefinitions =
                       [\<lparr>DockerLabels = [(''convox.release'', Some ''RABCDEFGHI'')]\<rparr>]\<rparr>),
      UpdateStack = (\<lambda>req. None),
      ObjectStore = (\<lambda>bucket key data. Inr ''object:///templates/app''),
      json_Unmarshal = (\<lambda>data. Inr example_formation),
      url_Parse = (\<lambda>u. Inr \<lparr>Scheme = ''object'', Path = ''/templates/app''\<rparr>)\<rparr>"

text \<open>The same collaborators, with an object store that refuses the template.\<close>

definition example_aws_store_down :: aws where
  "example_aws_store_down =
     example_aws\<lparr>ObjectStore := (\<lambda>bucket key data. Inl (Error ''put failed''))\<rparr>"

definition example_provider :: Provider where
  "example_provider =
     \<lparr>Region = ''us-east-1'', SettingsBucket = ''settings'', CloudformationTopic = ''topic'',
      Cluster = ''cluster'', SkipCache = False, IsTest = False\<rparr>"

definition example_world :: world where
  "example_world =
     \<lparr>entries = [], bypass = False, clock = 0, Clear_calls = [], UpdateStack_calls = []\<rparr>"

definition example_request :: UpdateStackInput where
  "example_request =
     \<lparr>req_Capabilities = [''CAPABILITY_IAM''],
      req_StackName = ''app'',
      req_NotificationARNs = [''topic''],
      req_ClientRequestToken = None,
      req_TemplateURL = Some ''https://s3.us-east-1.amazonaws.com/settings/templates/app'',
      req_UsePreviousTemplate = None,
      req_Parameters =
        [\<lparr>ParameterKey = ''A'', ParameterValue = Some ''9'', UsePreviousValue = None\<rparr>,
         \<lparr>ParameterKey = ''B'', ParameterValue = None, UsePreviousValue = Some True\<rparr>],
      req_Tags = [\<lparr>Key = ''env'', Value = ''old''\<rparr>, \<lparr>Key = ''env'', Value = ''new''\<rparr>]\<rparr>"

text \<open>
  A provider with \<open>SkipCache\<close> set, an older description of the stack, and a cache that
  still holds that older description.
\<close>

definition example_provider_skip :: Provider where
  "example_provider_skip = example_provider\<lparr>SkipCache := True\<rparr>"

definition example_old_stack :: Stack where
  "example_old_stack = example_stack\<lparr>StackStatus := ''CREATE_COMPLETE'', Parameters := []\<rparr>"

definition example_world_cached :: world where
  "example_world_cached =
     example_world\<lparr>entries :=
       [((''describeStacks'', KeyString ''app''), (CachedStacks [example_old_stack], 5 * Second))]\<rparr>"

text \<open>The same collaborators, with a provider that rejects the update.\<close>

definition example_aws_rejecting :: aws where
  "example_aws_rejecting =
     example_aws\<lparr>UpdateStack :=
       (\<lambda>req. Some (AwsError ''ValidationError'' ''No updates are to be performed.''))\<rparr>"

section \<open>Retry with jitter (helpers.go, lines 332 to 350)\<close>

text \<open>
  Go's \<open>int\<close> and \<open>time.Duration\<close> are 64-bit two's complement integers here (\<open>int\<close> has
  the width of the platform; the model takes the 64-bit one). They are modelled as
  \<open>int\<close>, with the wrap-around of \<open>+\<close> and \<open>++\<close> written out; Go's \<open>/\<close> truncates towards
  zero, which is \<open>sdiv\<close>.
\<close>

definition wrap64 :: "int \<Rightarrow> int" where
  "wrap64 x = (x + 2 ^ 63) mod 2 ^ 64 - 2 ^ 63"

text \<open>
  \<open>rand.Intn(n)\<close> of \<open>math/rand\<close> panics when \<open>n \<le> 0\<close> and otherwise returns a number
  in \<open>[0, n)\<close>. The random source is a parameter: \<open>draws k\<close> is what the source yields at
  its \<open>k\<close>-th use, reduced into the range; every number of the range is the result for
  some source.
\<close>

definition rand_Intn :: "(nat \<Rightarrow> nat) \<Rightarrow> nat \<Rightarrow> int \<Rightarrow> panic + int" where
  "rand_Intn draws k n =
     (if n \<le> 0 then Inl InvalidArgumentToIntn else Inr (int (draws k) mod n))"

text \<open>
  A call either returns or panics. The function \<open>fn\<close> is a closure: it may change the
  state it has captured, so it maps that state to its error and the new state. The run
  records the state of \<open>fn\<close>, how often \<open>fn\<close> was invoked, how many random numbers were
  drawn, and the durations handed to \<open>time.Sleep\<close>, in order.
\<close>

datatype 'a outcome = Returned 'a | Panicked panic

record 's run =
  fn_state :: 's
  invocations :: nat
  drawn :: nat
  sleeps :: "Duration list"

text \<open>
  The loop of \<open>retry\<close>, from the counter \<open>i\<close>. It need not end (a function that fails
  forever with the largest \<open>times\<close>), so a run that never returns is \<open>None\<close>.
\<close>

partial_function (option) retry_loop ::
  "int \<Rightarrow> Duration \<Rightarrow> ('s \<Rightarrow> error option \<times> 's) \<Rightarrow> (nat \<Rightarrow> nat) \<Rightarrow> int \<Rightarrow> 's run
     \<Rightarrow> (error option outcome \<times> 's run) option" where
  "retry_loop times' interval fn draws i st =
     (let (err, s') = fn (fn_state st);
          st1 = st\<lparr>fn_state := s', invocations := invocations st + 1\<rparr>
      in case err of
           None \<Rightarrow> Some (Returned None, st1)
         | Some e \<Rightarrow>
            (case rand_Intn draws (drawn st1) (interval sdiv 20) of
               Inl pn \<Rightarrow> Some (Panicked pn, st1)
             | Inr jitter \<Rightarrow>
                (let st2 = st1\<lparr>drawn := drawn st1 + 1,
                               sleeps := sleeps st1 @ [wrap64 (interval + jitter)]\<rparr>;
                     i' = wrap64 (i + 1)
                 in if i' > times' then Some (Returned (Some e), st2)
                    else retry_loop times' interval fn draws i' st2)))"

definition retry ::
  "int \<Rightarrow> Duration \<Rightarrow> ('s \<Rightarrow> error option \<times> 's) \<Rightarrow> (nat \<Rightarrow> nat) \<Rightarrow> 's run
     \<Rightarrow> (error option outcome \<times> 's run) option" where
  "retry times' interval fn draws st = retry_loop times' interval fn draws 0 st"

text \<open>
  A function that always fails, and counts its calls in its state: the error of the
  \<open>k\<close>-th call (from 0) names \<open>k\<close> calls before it.
\<close>

definition alwaysFails :: "nat \<Rightarrow> error option \<times> nat" where
  "alwaysFails k = (Some (Error (replicate k CHR ''x'')), Suc k)"

definition fresh_run :: "nat run" where
  "fresh_run = \<lparr>fn_state = 0, invocations = 0, drawn = 0, sleeps = []\<rparr>"

definition Millisecond :: Duration where
  "Millisecond = 1000000"

text \<open>The captured state after \<open>n\<close> invocations of \<open>fn\<close>.\<close>

primrec state_after :: "('s \<Rightarrow> error option \<times> 's) \<Rightarrow> nat \<Rightarrow> 's \<Rightarrow> 's" where
  "state_after fn 0 s = s"
| "state_after fn (Suc n) s = state_after fn n (snd (fn s))"

section \<open>Strings and slices of the Go library\<close>

text \<open>
  A Go string is a sequence of bytes, here a \<open>string\<close>. A slice expression \<open>s[low:high]\<close>
  panics unless \<open>0 \<le> low \<le> high \<le> cap(s)\<close>; for a string, and for the slice
  \<open>strings.Fields\<close> returns (made with exactly as many elements as it has fields), the
  capacity is the length.
\<close>

definition go_slice :: "'a list \<Rightarrow> int \<Rightarrow> int \<Rightarrow> panic + 'a list" where
  "go_slice s low high =
     (if 0 \<le> low \<and> low \<le> high \<and> high \<le> int (length s)
      then Inr (take (nat (high - low)) (drop (nat low) s))
      else Inl SliceBoundsOutOfRange)"

text \<open>\<open>strings.Split(s, sep)\<close> for a separator of one byte: at least one part, always.\<close>

fun Split :: "string \<Rightarrow> char \<Rightarrow> string list" where
  "Split [] sep = [[]]"
| "Split (c # cs) sep =
     (if c = sep then [] # Split cs sep
      else (case Split cs sep of
              part # parts \<Rightarrow> (c # part) # parts
            | [] \<Rightarrow> [[c]]))"

fun Join :: "string list \<Rightarrow> string \<Rightarrow> string" where
  "Join [] sep = []"
| "Join [x] sep = x"
| "Join (x # y # ys) sep = x @ sep @ Join (y # ys) sep"

definition HasPrefix :: "string \<Rightarrow> string \<Rightarrow> bool" where
  "HasPrefix s pre = (take (length pre) s = pre)"

text \<open>
  \<open>strings.Fields\<close> splits around runs of white space as \<open>unicode.IsSpace\<close> defines it,
  rune by rune. On the bytes of the string: the six ASCII spaces, and the UTF-8
  encodings of U+0085, U+00A0, U+1680, U+2000 to U+200A, U+2028, U+2029, U+202F, U+205F
  and U+3000. \<open>space_width\<close> is the number of bytes of the white-space rune a string
  starts with, 0 if it starts with none.
\<close>

definition ascii_spaces :: "char list" where
  "ascii_spaces = [CHR 0x09, CHR 0x0A, CHR 0x0B, CHR 0x0C, CHR 0x0D, CHR 0x20]"

definition two_byte_spaces :: "string list" where
  "two_byte_spaces = [[CHR 0xC2, CHR 0x85], [CHR 0xC2, CHR 0xA0]]"

definition three_byte_spaces :: "string list" where
  "three_byte_spaces =
     [[CHR 0xE1, CHR 0x9A, CHR 0x80],
      [CHR 0xE2, CHR 0x80, CHR 0x80], [CHR 0xE2, CHR 0x80, CHR 0x81],
      [CHR 0xE2, CHR 0x80, CHR 0x82], [CHR 0xE2, CHR 0x80, CHR 0x83],
      [CHR 0xE2, CHR 0x80, CHR 0x84], [CHR 0xE2, CHR 0x80, CHR 0x85],
      [CHR 0xE2, CHR 0x80, CHR 0x86], [CHR 0xE2, CHR 0x80, CHR 0x87],
      [CHR 0xE2, CHR 0x80, CHR 0x88], [CHR 0xE2, CHR 0x80, CHR 0x89],
      [CHR 0xE2, CHR 0x80, CHR 0x8A],
      [CHR 0xE2, CHR 0x80, CHR 0xA8], [CHR 0xE2, CHR 0x80, CHR 0xA9],
      [CHR 0xE2, CHR 0x80, CHR 0xAF],
      [CHR 0xE2, CHR 0x81, CHR 0x9F],
      [CHR 0xE3, CHR 0x80, CHR 0x80]]"

definition space_width :: "string \<Rightarrow> nat" where
  "space_width s =
     (if s \<noteq> [] \<and> hd s \<in> set ascii_spaces then 1
      else if 2 \<le> length s \<and> take 2 s \<in> set two_byte_spaces then 2
      else if 3 \<le> length s \<and> take 3 s \<in> set three_byte_spaces then 3
      else 0)"

text \<open>The scan: \<open>cur\<close> is the field being read, empty between fields.\<close>

fun fields_from :: "string \<Rightarrow> string \<Rightarrow> string list" where
  "fields_from cur [] = (if cur = [] then [] else [cur])"
| "fields_from cur (c # cs) =
     (if space_width (c # cs) = 0 then fields_from (cur @ [c]) cs
      else (if cur = [] then [] else [cur])
           @ fields_from [] (drop (space_width (c # cs) - 1) cs))"

definition Fields :: "string \<Rightarrow> string list" where
  "Fields s = fields_from [] s"

section \<open>The manifest and its validation (package manifest, lines 18 to 93)\<close>

text \<open>
  The manifest's services are a Go map from name to service; \<open>Validate\<close> and
  \<open>appCronJobs\<close> range over it, so it is an association list, in the order the range
  visits it. Of a service only its name and labels matter here.
\<close>

record Service =
  service_Name :: string
  Labels :: "(string \<times> string) list"

record Manifest =
  Version :: string
  Services :: "(string \<times> Service) list"

text \<open>
  Modelled from the spec: \<open>Service.LabelsByPrefix\<close> is not among the sources. Section 3
  describes cron jobs as extracted from the manifest's service labels matching a
  scheduling prefix: the labels whose key starts with the prefix.
\<close>

definition LabelsByPrefix :: "Service \<Rightarrow> string \<Rightarrow> (string \<times> string) list" where
  "LabelsByPrefix s pre = filter (\<lambda>(k, v). HasPrefix k pre) (Labels s)"

text \<open>
  The regular expression \<open>\A[a-zA-Z][-a-zA-Z0-9]{3,29}\z\<close>: a letter, then 3 to 29
  letters, digits or dashes, and nothing else.
\<close>

definition in_range :: "char \<Rightarrow> char \<Rightarrow> char \<Rightarrow> bool" where
  "in_range lo hi c = ((of_char lo :: nat) \<le> of_char c \<and> (of_char c :: nat) \<le> of_char hi)"

definition is_letter :: "char \<Rightarrow> bool" where
  "is_letter c = (in_range CHR ''a'' CHR ''z'' c \<or> in_range CHR ''A'' CHR ''Z'' c)"

definition regexValidCronLabel :: "string \<Rightarrow> bool" where
  "regexValidCronLabel name =
     (case name of
        [] \<Rightarrow> False
      | c # cs \<Rightarrow>
          is_letter c \<and> 3 \<le> length cs \<and> length cs \<le> 29
          \<and> list_all (\<lambda>x. x = CHR ''-'' \<or> is_letter x \<or> in_range CHR ''0'' CHR ''9'' x) cs)"

text \<open>
  \<open>Validate\<close> returns the first error it meets, or \<open>nil\<close> (\<open>None\<close>). The label's value
  is never read (\<open>for k, _ := range labels\<close>).
\<close>

fun Validate_labels :: "(string \<times> string) list \<Rightarrow> error option" where
  "Validate_labels [] = None"
| "Validate_labels ((k, v) # labels) =
     (let parts = Split k CHR ''.'' in
      if length parts \<noteq> 3
      then Some (Error ''Cron task is not valid (must be in format convox.cron.myjob)'')
      else let name = parts ! 2 in
           if \<not> regexValidCronLabel name
           then Some (Error (''Cron task '' @ name @
                  '' is not valid (cron names can contain only alphanumeric characters and dashes and must be between 4 and 30 characters)''))
           else Validate_labels labels)"

fun Validate_services :: "(string \<times> Service) list \<Rightarrow> error option" where
  "Validate_services [] = None"
| "Validate_services ((name, entry) # services) =
     (case Validate_labels (LabelsByPrefix entry ''convox.cron'') of
        Some err \<Rightarrow> Some err
      | None \<Rightarrow> Validate_services services)"

definition Validate :: "Manifest \<Rightarrow> error option" where
  "Validate m = Validate_services (Services m)"

section \<open>Cron jobs (helpers.go, lines 1435 to 1511)\<close>

record App =
  app_Name :: string
  app_Tags :: "(string \<times> string) list"

text \<open>\<open>Service\<close> and \<open>App\<close> are pointers, \<open>nil\<close> until \<open>appCronJobs\<close> sets them.\<close>

record CronJob =
  cron_Name :: string
  Schedule :: string
  Command :: string
  cron_Service :: "Service option"
  cron_App :: "App option"

definition NewCronJobFromLabel :: "string \<Rightarrow> string \<Rightarrow> panic + CronJob" where
  "NewCronJobFromLabel key v =
     (let keySlice = Split key CHR ''.'';
          name = keySlice ! (length keySlice - 1);
          tokens = Fields v
      in case go_slice tokens 0 5 of
           Inl pn \<Rightarrow> Inl pn
         | Inr first5 \<Rightarrow>
            (case go_slice tokens 5 (int (length tokens)) of
               Inl pn \<Rightarrow> Inl pn
             | Inr rest \<Rightarrow>
                Inr \<lparr>cron_Name = name,
                     Schedule = ''cron('' @ Join first5 '' '' @ '' *)'',
                     Command = Join rest '' '',
                     cron_Service = None,
                     cron_App = None\<rparr>))"

text \<open>
  \<open>appCronJobs\<close>: the manifest pointer may be \<open>nil\<close>; a panic in \<open>NewCronJobFromLabel\<close>
  ends the call.
\<close>

fun appCronJobs_labels ::
  "App \<Rightarrow> Service \<Rightarrow> (string \<times> string) list \<Rightarrow> panic + CronJob list" where
  "appCronJobs_labels a entry [] = Inr []"
| "appCronJobs_labels a entry ((key, v) # labels) =
     (case NewCronJobFromLabel key v of
        Inl pn \<Rightarrow> Inl pn
      | Inr cronjob \<Rightarrow>
         (case appCronJobs_labels a entry labels of
            Inl pn \<Rightarrow> Inl pn
          | Inr cronjobs \<Rightarrow>
             Inr (cronjob\<lparr>cron_Service := Some entry, cron_App := Some a\<rparr> # cronjobs)))"

fun appCronJobs_services ::
  "App \<Rightarrow> (string \<times> Service) list \<Rightarrow> panic + CronJob list" where
  "appCronJobs_services a [] = Inr []"
| "appCronJobs_services a ((name, entry) # services) =
     (case appCronJobs_labels a entry (LabelsByPrefix entry ''convox.cron'') of
        Inl pn \<Rightarrow> Inl pn
      | Inr cronjobs \<Rightarrow>
         (case appCronJobs_services a services of
            Inl pn \<Rightarrow> Inl pn
          | Inr others \<Rightarrow> Inr (cronjobs @ others)))"

definition appCronJobs :: "App \<Rightarrow> Manifest option \<Rightarrow> panic + CronJob list" where
  "appCronJobs a m =
     (case m of None \<Rightarrow> Inr [] | Some m' \<Rightarrow> appCronJobs_services a (Services m'))"

text \<open>
  \<open>base32.StdEncoding.EncodeToString\<close> (RFC 4648): the bits of the bytes, most
  significant first, in groups of five, the last group filled with zero bits; one
  letter of the alphabet per group; \<open>=\<close> signs up to a multiple of eight characters.
\<close>

definition encodeStd :: string where
  "encodeStd = ''ABCDEFGHIJKLMNOPQRSTUVWXYZ234567''"

definition bits_of_byte :: "8 word \<Rightarrow> bool list" where
  "bits_of_byte b = map (\<lambda>i. bit b (7 - i)) [0..<8]"

fun groups5 :: "bool list \<Rightarrow> bool list list" where
  "groups5 (a # b # c # d # e # rest) = [a, b, c, d, e] # groups5 rest"
| "groups5 [] = []"
| "groups5 short = [short @ replicate (5 - length short) False]"

definition group_value :: "bool list \<Rightarrow> nat" where
  "group_value g = foldl (\<lambda>n b. 2 * n + (if b then 1 else 0)) 0 g"

definition EncodeToString :: "8 word list \<Rightarrow> string" where
  "EncodeToString src =
     (let letters = map (\<lambda>g. encodeStd ! group_value g) (groups5 (concat (map bits_of_byte src)))
      in letters @ replicate ((8 - length letters mod 8) mod 8) CHR ''='')"

text \<open>
  \<open>sha256.Sum256\<close> returns a \<open>[32]byte\<close>, a value of 256 bits; \<open>hash[:]\<close> are its 32
  bytes, first byte first. The hash function itself is a parameter.
\<close>

definition hash_bytes :: "256 word \<Rightarrow> 8 word list" where
  "hash_bytes hash = map (\<lambda>i. ucast (drop_bit (8 * (31 - i)) hash)) [0..<32]"

definition Process :: "CronJob \<Rightarrow> panic + string" where
  "Process cr = (case cron_Service cr of None \<Rightarrow> Inl NilDereference | Some s \<Rightarrow> Inr (service_Name s))"

text \<open>
  \<open>LongName\<close>, with the environment (\<open>os.Getenv\<close>) and the hash function as parameters.
  The arguments of \<open>Sprintf\<close> are evaluated first: \<open>cr.App.Name\<close>, then \<open>cr.Process()\<close>.
\<close>

definition LongName ::
  "(string \<Rightarrow> string) \<Rightarrow> (string \<Rightarrow> 256 word) \<Rightarrow> CronJob \<Rightarrow> panic + string" where
  "LongName Getenv Sum256 cr =
     (case cron_App cr of
        None \<Rightarrow> Inl NilDereference
      | Some app \<Rightarrow>
         (case Process cr of
            Inl pn \<Rightarrow> Inl pn
          | Inr process \<Rightarrow>
             (let prefix = Getenv ''RACK'' @ ''-'' @ app_Name app @ ''-'' @ process @ ''-''
                           @ cron_Name cr;
                  hash = Sum256 prefix
              in case go_slice (EncodeToString (hash_bytes hash)) 0 7 of
                   Inl pn \<Rightarrow> Inl pn
                 | Inr hash7 \<Rightarrow>
                    (let suffix = ''-'' @ hash7 in
                     if int (length prefix) > 55 - int (length suffix)
                     then (case go_slice prefix 0 (55 - int (length suffix)) of
                             Inl pn \<Rightarrow> Inl pn
                           | Inr prefix' \<Rightarrow> Inr (prefix' @ suffix))
                     else Inr (prefix @ suffix)))))"

text \<open>
  The same manifest with other label values: \<open>f key v\<close> in place of the value \<open>v\<close>
  of the label \<open>key\<close>, in every service.
\<close>

definition with_label_values :: "(string \<Rightarrow> string \<Rightarrow> string) \<Rightarrow> Manifest \<Rightarrow> Manifest" where
  "with_label_values f m =
     m\<lparr>Services :=
         map (\<lambda>(name, entry). (name, entry\<lparr>Labels := map (\<lambda>(k, v). (k, f k v)) (Labels entry)\<rparr>))
             (Services m)\<rparr>"

text \<open>
  A manifest whose one cron label has a well-formed key and a schedule of two fields.
\<close>

definition example_service :: Service where
  "example_service =
     \<lparr>service_Name = ''web'',
      Labels = [(''convox.port.443.protocol'', ''tls''),
                (''convox.cron.myjob'', ''@daily bin/cleanup'')]\<rparr>"

definition example_manifest :: Manifest where
  "example_manifest = \<lparr>Version = ''1'', Services = [(''web'', example_service)]\<rparr>"

definition example_app :: App where
  "example_app = \<lparr>app_Name = ''app'', app_Tags = []\<rparr>"

section \<open>Status normalisation: results\<close>

text \<open>
  C8. \<open>humanStatus\<close> is total (it has no failing branch) and its result is the one the
  specification's table gives: the mapped canonical value for each of the fourteen raw
  statuses of the table, and \<open>unknown\<close> for every other string.
\<close>

theorem humanStatus_refines_table:
  "fst (humanStatus original stdout) = spec_Normalize original"
  unfolding humanStatus_def spec_Normalize_def spec_status_table_def
  by (simp del: One_nat_def)


text \<open>Only a status outside the table is reported on standard output.\<close>

lemma humanStatus_stdout:
  "snd (humanStatus original stdout) =
     (case map_of spec_status_table original of
        Some canonical \<Rightarrow> stdout
      | None \<Rightarrow> stdout @ [''unknown status: '' @ original @ [CHR 0x0A]])"
  unfolding humanStatus_def spec_status_table_def
  by (simp del: One_nat_def)

section \<open>Template conditions: results\<close>

lemmas condition_defs =
  Ref_def Fn_Equals_def FargateServicesBase_def FargateServicesSpot_def
  FargateServicesEither_def Private_def Isolate_def IsolateServices_def service_Isolate_def

text \<open>
  C6, as stated, fails. With network isolation requested (\<open>Isolate\<close> is \<open>Yes\<close>) on a rack
  that is not private (\<open>Private\<close> is \<open>No\<close>) and no serverless capacity
  (\<open>FargateServices\<close> is \<open>No\<close>), the claim's right-hand side holds, but the
  \<open>IsolateServices\<close> condition does not, and the service receives \<open>Isolate = No\<close>.
\<close>

theorem IsolateServices_needs_Private_counterexample:
  "[''Isolate'' \<mapsto> ''Yes'', ''Private'' \<mapsto> ''No'', ''FargateServices'' \<mapsto> ''No''] ''Isolate'' = Some ''Yes''
   \<and> \<not> IsolateServices [''Isolate'' \<mapsto> ''Yes'', ''Private'' \<mapsto> ''No'', ''FargateServices'' \<mapsto> ''No'']
   \<and> service_Isolate [''Isolate'' \<mapsto> ''Yes'', ''Private'' \<mapsto> ''No'', ''FargateServices'' \<mapsto> ''No''] = ''No''"
  by (simp add: condition_defs)

text \<open>
  C6, amended. The \<open>IsolateServices\<close> condition holds exactly when serverless capacity is
  selected (\<open>FargateServices\<close> is \<open>Yes\<close> or \<open>Spot\<close>) or network isolation is requested on a
  private rack (\<open>Isolate\<close> is \<open>Yes\<close> and \<open>Private\<close> is \<open>Yes\<close>), whatever the other
  parameters are; the service's \<open>Isolate\<close> property is \<open>Yes\<close> in exactly that case.
\<close>

theorem IsolateServices_iff:
  "IsolateServices ps =
     (ps ''FargateServices'' = Some ''Yes'' \<or> ps ''FargateServices'' = Some ''Spot''
      \<or> (ps ''Private'' = Some ''Yes'' \<and> ps ''Isolate'' = Some ''Yes''))
   \<and> (service_Isolate ps = ''Yes'') = IsolateServices ps"
  by (auto simp add: condition_defs)

section \<open>Updating a stack: results\<close>

lemma updateStack_parameters_keys:
  "map ParameterKey (updateStack_parameters changes pexisting names) =
     filter (\<lambda>k. changes k \<noteq> None \<or> k \<in> pexisting) names"
  by (induction names) (auto split: option.splits)

lemma updateStack_parameters_absent:
  "k \<notin> set names \<Longrightarrow>
   filter (\<lambda>x. ParameterKey x = k) (updateStack_parameters changes pexisting names) = []"
  by (induction names) (auto split: option.splits)

lemma updateStack_parameters_entry:
  "distinct names \<Longrightarrow> k \<in> set names \<Longrightarrow>
   filter (\<lambda>x. ParameterKey x = k) (updateStack_parameters changes pexisting names) =
     (case changes k of
        Some v \<Rightarrow> [\<lparr>ParameterKey = k, ParameterValue = Some v, UsePreviousValue = None\<rparr>]
      | None \<Rightarrow>
          if k \<in> pexisting
          then [\<lparr>ParameterKey = k, ParameterValue = None, UsePreviousValue = Some True\<rparr>]
          else [])"
proof (induction names)
  case Nil
  then show ?case by simp
next
  case (Cons n names)
  show ?case
  proof (cases "n = k")
    case True
    with Cons.prems have "k \<notin> set names" by simp
    with True updateStack_parameters_absent [of k names changes pexisting] show ?thesis
      by (simp split: option.splits)
  next
    case False
    with Cons show ?thesis by (auto split: option.splits)
  qed
qed

lemma cache_Clear_calls:
  "UpdateStack_calls (cache_Clear operation key w) = UpdateStack_calls w"
  by (simp add: cache_Clear_def split: cache_key.splits)

lemma describeStacks_calls:
  "UpdateStack_calls (snd (describeStacks a p n w)) = UpdateStack_calls w"
  by (auto simp add: describeStacks_def cache_Set_def Let_def
      split: option.splits cache_value.splits sum.splits prod.splits if_splits)

lemma describeStack_calls:
  "describeStack a p name w = (r, w') \<Longrightarrow> UpdateStack_calls w' = UpdateStack_calls w"
  using describeStacks_calls [of a p "Some name" w]
  by (auto simp add: describeStack_def
      split: prod.splits sum.splits error.splits list.splits if_splits)

lemma formationParameters_names:
  "formationParameters a t = Inr fp \<Longrightarrow>
   distinct fp \<and> (\<exists>f. parseFormation a t = Inr f \<and> set fp = fst ` set (formation_Parameters f))"
  by (cases "parseFormation a t") (force simp add: formationParameters_def)+

lemma updateStack_request_parameters_None:
  "updateStack_request a p name None changes tags id' stack = Inr req \<Longrightarrow>
   req_Parameters req =
     updateStack_parameters changes (ParameterKey ` set (Parameters stack))
       (sort (remdups (map ParameterKey (Parameters stack))))"
  by (auto simp add: updateStack_request_def Let_def)

lemma updateStack_request_parameters_Some:
  "updateStack_request a p name (Some t) changes tags id' stack = Inr req \<Longrightarrow>
   \<exists>fp. formationParameters a t = Inr fp
      \<and> req_Parameters req =
          updateStack_parameters changes (ParameterKey ` set (Parameters stack)) (sort fp)"
  by (auto simp add: updateStack_request_def Let_def split: sum.splits)

lemma updateStack_request_tags:
  "updateStack_request a p name template changes tags id' stack = Inr req \<Longrightarrow>
   req_Tags req = Tags stack @ updateStack_tags tags"
  by (auto simp add: updateStack_request_def Let_def split: option.splits sum.splits)

lemma updateStack_submits:
  assumes "describeStack a p name
             (cleared name w) = (Inr stack, w')"
    and "updateStack_request a p name template changes tags id' stack = Inr req"
  shows "fst (updateStack a p name template changes tags id' w) = UpdateStack a req"
    and "UpdateStack_calls (snd (updateStack a p name template changes tags id' w)) =
           UpdateStack_calls w @ [req]"
  using assms describeStack_calls [OF assms(1)]
  by (simp_all add: updateStack_def Let_def cleared_def cache_Clear_calls)

lemma example_described:
  "describeStack example_aws example_provider ''app''
     (cleared ''app'' example_world)
   = (Inr example_stack,
      example_world\<lparr>entries :=
        [((''describeStacks'', KeyString ''app''), (CachedStacks [example_stack], 5 * Second))],
        Clear_calls := [(''describeStacks'', KeyNil), (''describeStacks'', KeyString ''app'')]\<rparr>)"
  by (simp add: Let_def describeStack_def describeStacks_def cache_Get_def cache_Set_def
      cleared_def cache_Clear_def stack_key_def example_aws_def example_provider_def
      example_world_def)

lemma example_built:
  "updateStack_request example_aws example_provider ''app'' (Some [])
     [''A'' \<mapsto> ''9''] [(''env'', ''new'')] [] example_stack = Inr example_request"
  by (simp add: Let_def updateStack_request_def objectURL_def formationParameters_def
      parseFormation_def updateStack_tags_def example_aws_def example_provider_def
      example_formation_def example_stack_def example_request_def)

text \<open>
  C1. Whenever \<open>updateStack\<close> describes the live stack and builds its request, that
  request is the one it submits, and for the target parameter set \<open>P\<close> (the names the
  supplied template declares, or the live stack's own names when the template is \<open>nil\<close>):
  a parameter of \<open>P\<close> with an entry in \<open>changes\<close> is submitted once, with that value; a
  parameter of \<open>P\<close> without one that the live stack has is submitted once, as a
  use-previous-value marker that carries no value; a parameter of \<open>P\<close> that is in neither
  is not submitted; and nothing outside \<open>P\<close> is submitted.
\<close>

theorem updateStack_parameter_carry_forward:
  assumes described:
      "describeStack a p name
         (cleared name w) = (Inr stack, w')"
    and built: "updateStack_request a p name template changes tags id' stack = Inr req"
    and target:
      "P = (case template of
              None \<Rightarrow> ParameterKey ` set (Parameters stack)
            | Some t \<Rightarrow> (case parseFormation a t of
                           Inr f \<Rightarrow> fst ` set (formation_Parameters f)
                         | Inl err \<Rightarrow> {}))"
  shows "UpdateStack_calls (snd (updateStack a p name template changes tags id' w)) =
           UpdateStack_calls w @ [req]
         \<and> (\<forall>k\<in>P. filter (\<lambda>x. ParameterKey x = k) (req_Parameters req) =
               (case changes k of
                  Some v \<Rightarrow>
                    [\<lparr>ParameterKey = k, ParameterValue = Some v, UsePreviousValue = None\<rparr>]
                | None \<Rightarrow>
                    if k \<in> ParameterKey ` set (Parameters stack)
                    then [\<lparr>ParameterKey = k, ParameterValue = None,
                           UsePreviousValue = Some True\<rparr>]
                    else []))
         \<and> ParameterKey ` set (req_Parameters req) \<subseteq> P"
proof -
  obtain names where names: "distinct names" "set names = P"
    and params: "req_Parameters req =
      updateStack_parameters changes (ParameterKey ` set (Parameters stack)) (sort names)"
  proof (cases template)
    case None
    with built target that [of "remdups (map ParameterKey (Parameters stack))"]
      updateStack_request_parameters_None [of a p name changes tags id' stack req]
    show ?thesis by simp
  next
    case (Some t)
    with built updateStack_request_parameters_Some [of a p name t changes tags id' stack req]
    obtain fp where fp: "formationParameters a t = Inr fp"
      and "req_Parameters req =
        updateStack_parameters changes (ParameterKey ` set (Parameters stack)) (sort fp)"
      by auto
    moreover from formationParameters_names [OF fp] target Some
    have "distinct fp" and "set fp = P" by auto
    ultimately show ?thesis using that by blast
  qed
  have sorted_names: "distinct (sort names)" "set (sort names) = P"
    using names by simp_all
  have "\<forall>k\<in>P. filter (\<lambda>x. ParameterKey x = k) (req_Parameters req) =
               (case changes k of
                  Some v \<Rightarrow>
                    [\<lparr>ParameterKey = k, ParameterValue = Some v, UsePreviousValue = None\<rparr>]
                | None \<Rightarrow>
                    if k \<in> ParameterKey ` set (Parameters stack)
                    then [\<lparr>ParameterKey = k, ParameterValue = None,
                           UsePreviousValue = Some True\<rparr>]
                    else [])"
    using updateStack_parameters_entry [OF sorted_names(1)] sorted_names(2) params
    by simp
  moreover have "ParameterKey ` set (req_Parameters req) \<subseteq> P"
  proof -
    have "set (map ParameterKey (req_Parameters req)) \<subseteq> set (sort names)"
      unfolding params updateStack_parameters_keys by auto
    then show ?thesis using sorted_names(2) by simp
  qed
  ultimately show ?thesis
    using updateStack_submits(2) [OF described built] by blast
qed

text \<open>
  The example of the specification: live parameters \<open>A = 1\<close> and \<open>B = 2\<close>, the change
  \<open>A = 9\<close>, the target set \<open>A\<close>, \<open>B\<close>, \<open>C\<close>. The request holds \<open>A = 9\<close>, \<open>B\<close> as
  carry-forward, and nothing for \<open>C\<close>.
\<close>

theorem updateStack_parameter_carry_forward_witness:
  "describeStack example_aws example_provider ''app''
     (cleared ''app'' example_world)
     = (Inr example_stack,
        example_world\<lparr>entries :=
          [((''describeStacks'', KeyString ''app''), (CachedStacks [example_stack], 5 * Second))],
        Clear_calls := [(''describeStacks'', KeyNil), (''describeStacks'', KeyString ''app'')]\<rparr>)
   \<and> updateStack_request example_aws example_provider ''app'' (Some [])
        [''A'' \<mapsto> ''9''] [(''env'', ''new'')] [] example_stack = Inr example_request
   \<and> UpdateStack_calls (snd (updateStack example_aws example_provider ''app'' (Some [])
        [''A'' \<mapsto> ''9''] [(''env'', ''new'')] [] example_world)) = [example_request]
   \<and> filter (\<lambda>x. ParameterKey x = ''A'') (req_Parameters example_request) =
        [\<lparr>ParameterKey = ''A'', ParameterValue = Some ''9'', UsePreviousValue = None\<rparr>]
   \<and> filter (\<lambda>x. ParameterKey x = ''B'') (req_Parameters example_request) =
        [\<lparr>ParameterKey = ''B'', ParameterValue = None, UsePreviousValue = Some True\<rparr>]
   \<and> filter (\<lambda>x. ParameterKey x = ''C'') (req_Parameters example_request) = []"
proof -
  note described = example_described and built = example_built
  have target:
    "{''A'', ''B'', ''C''} =
       (case Some [] of
          None \<Rightarrow> ParameterKey ` set (Parameters example_stack)
        | Some t \<Rightarrow> (case parseFormation example_aws t of
                       Inr f \<Rightarrow> fst ` set (formation_Parameters f)
                     | Inl err \<Rightarrow> {}))"
    by (auto simp add: parseFormation_def example_aws_def example_formation_def)
  from updateStack_parameter_carry_forward [OF described built target]
  show ?thesis
    using described built
    by (simp add: example_stack_def example_world_def)
qed

lemma updateStack_tags_keys: "map Key (updateStack_tags tags) = sort (remdups (map fst tags))"
  by (simp add: updateStack_tags_def comp_def)

lemma filter_key_distinct:
  "distinct xs \<Longrightarrow> k \<in> set xs \<Longrightarrow> filter (\<lambda>x. x = k) xs = [k]"
proof (induction xs)
  case Nil
  then show ?case by simp
next
  case (Cons x xs)
  show ?case
  proof (cases "x = k")
    case True
    with Cons.prems have "k \<notin> set xs" by simp
    then have "filter (\<lambda>x. x = k) xs = []" by (auto simp add: filter_empty_conv)
    with True show ?thesis by simp
  next
    case False
    with Cons show ?thesis by simp
  qed
qed

lemma updateStack_tags_entry:
  assumes "map_of tags k = Some v"
  shows "filter (\<lambda>t. Key t = k) (updateStack_tags tags) = [\<lparr>Key = k, Value = v\<rparr>]"
proof -
  let ?keys = "sort (remdups (map fst tags))"
  have "k \<in> set ?keys"
    using assms by (auto dest: map_of_SomeD intro: rev_image_eqI)
  moreover have "distinct ?keys" by simp
  ultimately have "filter (\<lambda>x. x = k) ?keys = [k]"
    by (rule filter_key_distinct [rotated])
  then show ?thesis
    using assms by (simp add: updateStack_tags_def filter_map comp_def)
qed

text \<open>
  C5, as stated, fails: the request starts from the live stack's tags and each supplied
  tag is appended, never written over an existing one. With the live tag \<open>env = old\<close> and
  the supplied tag \<open>env = new\<close> the submitted request holds the key \<open>env\<close> twice, first
  with the old value.
\<close>

theorem updateStack_tags_duplicate_counterexample:
  "updateStack_request example_aws example_provider ''app'' (Some [])
     [''A'' \<mapsto> ''9''] [(''env'', ''new'')] [] example_stack = Inr example_request
   \<and> UpdateStack_calls (snd (updateStack example_aws example_provider ''app'' (Some [])
        [''A'' \<mapsto> ''9''] [(''env'', ''new'')] [] example_world)) = [example_request]
   \<and> req_Tags example_request =
        [\<lparr>Key = ''env'', Value = ''old''\<rparr>, \<lparr>Key = ''env'', Value = ''new''\<rparr>]
   \<and> map Key (req_Tags example_request) = [''env'', ''env'']"
  by (simp add: Let_def updateStack_def updateStack_request_def objectURL_def
      formationParameters_def parseFormation_def updateStack_tags_def describeStack_def
      describeStacks_def cache_Get_def cache_Set_def cleared_def cache_Clear_def stack_key_def
      example_aws_def example_provider_def example_formation_def example_stack_def
      example_request_def example_world_def)

text \<open>
  C5, amended. The submitted tag list is the live stack's tags, unchanged and in their
  order, followed by one tag for each supplied key, in sorted key order, with the
  supplied value. A supplied tag is therefore the last entry of its key in the request,
  after every entry the live stack already had for that key.
\<close>

theorem updateStack_tags_appended:
  assumes described:
      "describeStack a p name
         (cleared name w) = (Inr stack, w')"
    and built: "updateStack_request a p name template changes tags id' stack = Inr req"
  shows "UpdateStack_calls (snd (updateStack a p name template changes tags id' w)) =
           UpdateStack_calls w @ [req]
         \<and> req_Tags req = Tags stack @ updateStack_tags tags
         \<and> map Key (updateStack_tags tags) = sort (remdups (map fst tags))
         \<and> (\<forall>k v. map_of tags k = Some v \<longrightarrow>
               filter (\<lambda>t. Key t = k) (req_Tags req) =
                 filter (\<lambda>t. Key t = k) (Tags stack) @ [\<lparr>Key = k, Value = v\<rparr>])"
  using updateStack_submits(2) [OF described built] updateStack_request_tags [OF built]
    updateStack_tags_keys [of tags] updateStack_tags_entry [of tags]
  by simp

theorem updateStack_tags_appended_witness:
  "describeStack example_aws example_provider ''app''
     (cleared ''app'' example_world)
   = (Inr example_stack,
      example_world\<lparr>entries :=
        [((''describeStacks'', KeyString ''app''), (CachedStacks [example_stack], 5 * Second))],
        Clear_calls := [(''describeStacks'', KeyNil), (''describeStacks'', KeyString ''app'')]\<rparr>)
   \<and> updateStack_request example_aws example_provider ''app'' (Some [])
        [''A'' \<mapsto> ''9''] [(''env'', ''new'')] [] example_stack = Inr example_request
   \<and> map_of [(''env'', ''new'')] ''env'' = Some ''new''
   \<and> req_Tags example_request = Tags example_stack @ updateStack_tags [(''env'', ''new'')]
   \<and> filter (\<lambda>t. Key t = ''env'') (req_Tags example_request) =
        filter (\<lambda>t. Key t = ''env'') (Tags example_stack) @ [\<lparr>Key = ''env'', Value = ''new''\<rparr>]"
proof -
  have supplied: "map_of [(''env'', ''new'')] ''env'' = Some ''new''" by simp
  from updateStack_tags_appended [OF example_described example_built] supplied
  show ?thesis
    using example_described example_built by blast
qed

section \<open>Cache invalidation: results\<close>

lemma map_of_cleared_nil:
  "map_of (filter (\<lambda>e. fst (fst e) \<noteq> operation) es) (operation, key) = None"
  by (induction es) auto

lemma map_of_cleared_key:
  "map_of (filter (\<lambda>e. fst e \<noteq> k) es) k = None"
  by (induction es) auto

lemma map_of_cleared_other:
  "k' \<noteq> k \<Longrightarrow> map_of (filter (\<lambda>e. fst e \<noteq> k) es) k' = map_of es k'"
  by (induction es) auto

lemma describeStack_world:
  "snd (describeStack a p name w) = snd (describeStacks a p (Some name) w)"
  by (simp add: describeStack_def split: prod.splits sum.splits error.splits list.splits)

lemma describeStacks_miss:
  assumes "cache_Get ''describeStacks'' (stack_key n) w = None"
  shows "snd (describeStacks a p n w) =
           (case DescribeStacksPages a n of
              Inl err \<Rightarrow> w
            | Inr pages \<Rightarrow>
                if SkipCache p then w
                else snd (cache_Set ''describeStacks'' (stack_key n)
                            (CachedStacks (concat pages)) (5 * Second) w))"
  using assms
  by (simp add: describeStacks_def cache_Set_def Let_def split: sum.splits)

lemma map_of_filter_None:
  "(\<And>e. P e \<Longrightarrow> fst e \<noteq> k) \<Longrightarrow> map_of (filter P es) k = None"
  by (induction es) auto

lemma cleared_simps:
  "bypass (cleared name w) = bypass w"
  "clock (cleared name w) = clock w"
  "UpdateStack_calls (cleared name w) = UpdateStack_calls w"
  "Clear_calls (cleared name w) =
     Clear_calls w @ [(''describeStacks'', KeyNil), (''describeStacks'', KeyString name)]"
  by (simp_all add: cleared_def cache_Clear_def)

lemma cleared_entries:
  "map_of (entries (cleared name w)) (''describeStacks'', key) = None"
  by (simp add: cleared_def cache_Clear_def) (rule map_of_filter_None, auto)

lemma cache_Get_cleared': "cache_Get ''describeStacks'' key (cleared name w) = None"
  by (simp add: cache_Get_def cleared_entries)

text \<open>What a description leaves behind when it starts from cleared entries.\<close>

lemma describeStack_after_clear:
  assumes "describeStack a p name (cleared name w) = (r, w3)"
  shows "bypass w3 = bypass w" and "UpdateStack_calls w3 = UpdateStack_calls w"
    and "map_of (entries w3) (''describeStacks'', KeyNil) = None"
    and "SkipCache p \<or> isl (DescribeStacksPages a (Some name))
         \<Longrightarrow> map_of (entries w3) (''describeStacks'', KeyString name) = None"
proof -
  have w3: "w3 = snd (describeStacks a p (Some name) (cleared name w))"
    using assms describeStack_world [of a p name "cleared name w"] by simp
  have miss: "cache_Get ''describeStacks'' (stack_key (Some name)) (cleared name w) = None"
    by (rule cache_Get_cleared')
  note step = describeStacks_miss [OF miss, of a p, folded w3]
  show "bypass w3 = bypass w"
    unfolding step by (simp add: cache_Set_def cleared_simps split: sum.splits)
  show "UpdateStack_calls w3 = UpdateStack_calls w"
    unfolding step by (simp add: cache_Set_def cleared_simps split: sum.splits)
  show "map_of (entries w3) (''describeStacks'', KeyNil) = None"
    unfolding step
    by (simp add: cache_Set_def cleared_simps cleared_entries stack_key_def
        map_of_cleared_other split: sum.splits)
  show "map_of (entries w3) (''describeStacks'', KeyString name) = None"
    if "SkipCache p \<or> isl (DescribeStacksPages a (Some name))"
    using that unfolding step
    by (auto simp add: cleared_entries split: sum.splits)
qed


lemma cache_Get_clock:
  "map_of (entries w) (operation, key) = None \<Longrightarrow>
   cache_Get operation key (w\<lparr>clock := t\<rparr>) = None"
  by (simp add: cache_Get_def)

lemma cleared_without_entries:
  "cleared name
     (w\<lparr>entries := filter (\<lambda>e. fst e \<noteq> (''describeStacks'', KeyString name)
                                \<and> fst e \<noteq> (''describeStacks'', KeyNil)) (entries w)\<rparr>)
   = cleared name w"
proof -
  have "filter (\<lambda>e. fst (fst e) \<noteq> ''describeStacks'' \<and> fst e \<noteq> (''describeStacks'', KeyString name))
          (filter (\<lambda>e. fst e \<noteq> (''describeStacks'', KeyString name)
                     \<and> fst e \<noteq> (''describeStacks'', KeyNil)) es)
        = filter (\<lambda>e. fst (fst e) \<noteq> ''describeStacks'' \<and> fst e \<noteq> (''describeStacks'', KeyString name)) es"
    for es :: "((string \<times> cache_key) \<times> (cache_value \<times> int)) list"
    by (induction es) auto
  then show ?thesis
    by (simp add: cleared_def cache_Clear_def)
qed

text \<open>
  With the cache in use, a description that starts from cleared entries and gets an
  answer from the provider stores it, for five seconds.
\<close>

lemma describeStack_stores:
  assumes "describeStack a p name (cleared name w) = (r, w3)"
    and "DescribeStacksPages a (Some name) = Inr pages"
    and "\<not> SkipCache p" and "\<not> bypass w"
  shows "map_of (entries w3) (''describeStacks'', KeyString name) =
           Some (CachedStacks (concat pages), clock w + 5 * Second)"
proof -
  have w3: "w3 = snd (describeStacks a p (Some name) (cleared name w))"
    using assms(1) describeStack_world [of a p name "cleared name w"] by simp
  have miss: "cache_Get ''describeStacks'' (stack_key (Some name)) (cleared name w) = None"
    by (rule cache_Get_cleared')
  note step = describeStacks_miss [OF miss, of a p, folded w3]
  show ?thesis
    unfolding step using assms(2-4)
    by (simp add: cache_Set_def cleared_simps stack_key_def)
qed

lemma describeStack_Clear_calls:
  "describeStack a p name w = (r, w3) \<Longrightarrow> Clear_calls w3 = Clear_calls w"
proof -
  have "Clear_calls (snd (describeStacks a p n w)) = Clear_calls w" for n
    by (auto simp add: describeStacks_def cache_Set_def Let_def
        split: option.splits cache_value.splits sum.splits)
  then show "describeStack a p name w = (r, w3) \<Longrightarrow> Clear_calls w3 = Clear_calls w"
    using describeStack_world [of a p name w] by (metis snd_conv)
qed

text \<open>
  C2, as stated, fails on an early return. With the cache in use, a stack that is
  described successfully, and an object store that refuses the template,
  \<open>updateStack\<close> returns the store's error without clearing again: the description it
  fetched after the first clear is still cached, and a \<open>Get\<close> for it at the same instant
  is a hit.
\<close>

theorem updateStack_early_return_counterexample:
  "updateStack example_aws_store_down example_provider ''app'' (Some [])
     [''A'' \<mapsto> ''9''] [(''env'', ''new'')] [] example_world
   = (Some (Error ''put failed''),
      example_world\<lparr>entries :=
        [((''describeStacks'', KeyString ''app''), (CachedStacks [example_stack], 5 * Second))],
        Clear_calls := [(''describeStacks'', KeyNil), (''describeStacks'', KeyString ''app'')]\<rparr>)
   \<and> cache_Get ''describeStacks'' (KeyString ''app'')
        (example_world\<lparr>entries :=
          [((''describeStacks'', KeyString ''app''), (CachedStacks [example_stack], 5 * Second))],
        Clear_calls := [(''describeStacks'', KeyNil), (''describeStacks'', KeyString ''app'')]\<rparr>)
      = Some (CachedStacks [example_stack])"
  by (simp add: Let_def updateStack_def updateStack_request_def describeStack_def
      describeStacks_def cache_Get_def cache_Set_def cleared_def cache_Clear_def stack_key_def
      example_aws_store_down_def example_aws_def example_provider_def example_world_def
      Second_def)

text \<open>
  C2, amended. Every call to \<open>updateStack\<close> first clears the wildcard and then the
  name's \<open>describeStacks\<close> entry, before it describes the stack: removing the two entries
  beforehand changes nothing of the call. It makes the same two \<open>Clear\<close> calls once more
  exactly when it reaches the provider's \<open>UpdateStack\<close>, whose answer (acceptance or
  rejection) it then returns; otherwise it makes no further \<open>Clear\<close> call. The wildcard
  entry is a miss after every call. When the call reaches the provider's
  \<open>UpdateStack\<close>, or \<open>SkipCache\<close> is set, or the provider's describe call fails, the next
  \<open>Get\<close> for \<open>describeStacks(name)\<close>, at whatever time, is a miss. When the call returns
  before that after the provider has described the stack, with the cache in use, the
  description just fetched is still a hit for its five seconds.
\<close>

theorem updateStack_clears_cache:
  assumes returned: "updateStack a p name template changes tags id' w = (r, w')"
  shows "updateStack a p name template changes tags id'
           (w\<lparr>entries := filter (\<lambda>e. fst e \<noteq> (''describeStacks'', KeyString name)
                                      \<and> fst e \<noteq> (''describeStacks'', KeyNil)) (entries w)\<rparr>)
         = (r, w')
       \<and> Clear_calls w' =
           Clear_calls w @ [(''describeStacks'', KeyNil), (''describeStacks'', KeyString name)]
           @ (if UpdateStack_calls w' \<noteq> UpdateStack_calls w
              then [(''describeStacks'', KeyNil), (''describeStacks'', KeyString name)]
              else [])
       \<and> (UpdateStack_calls w' \<noteq> UpdateStack_calls w \<longrightarrow>
            (\<exists>req. UpdateStack_calls w' = UpdateStack_calls w @ [req] \<and> r = UpdateStack a req))
       \<and> cache_Get ''describeStacks'' KeyNil (w'\<lparr>clock := t\<rparr>) = None
       \<and> (UpdateStack_calls w' \<noteq> UpdateStack_calls w \<or> SkipCache p
              \<or> isl (DescribeStacksPages a (Some name)) \<longrightarrow>
            cache_Get ''describeStacks'' (KeyString name) (w'\<lparr>clock := t\<rparr>) = None)
       \<and> (UpdateStack_calls w' = UpdateStack_calls w \<and> \<not> SkipCache p \<and> \<not> bypass w
              \<and> DescribeStacksPages a (Some name) = Inr pages \<and> t \<le> clock w + 5 * Second \<longrightarrow>
            cache_Get ''describeStacks'' (KeyString name) (w'\<lparr>clock := t\<rparr>)
              = Some (CachedStacks (concat pages)))"
proof -
  let ?nil = "(''describeStacks'', KeyNil)" and ?key = "(''describeStacks'', KeyString name)"
  obtain d w3 where described: "describeStack a p name (cleared name w) = (d, w3)"
    by (cases "describeStack a p name (cleared name w)")
  note after = describeStack_after_clear [OF described]
  have log3: "Clear_calls w3 = Clear_calls w @ [?nil, ?key]"
    using describeStack_Clear_calls [OF described] by (simp add: cleared_simps)
  have first: "updateStack a p name template changes tags id'
      (w\<lparr>entries := filter (\<lambda>e. fst e \<noteq> ?key \<and> fst e \<noteq> ?nil) (entries w)\<rparr>) = (r, w')"
    using returned by (simp add: updateStack_def cleared_without_entries)
  consider (submitted) stack req where "d = Inr stack"
      "updateStack_request a p name template changes tags id' stack = Inr req"
    | (early) err where "d = Inl err \<or> (\<exists>stack. d = Inr stack
          \<and> updateStack_request a p name template changes tags id' stack = Inl err)"
    by (cases d; cases "updateStack_request a p name template changes tags id' (projr d)")
       auto
  then have rest:
    "Clear_calls w' = Clear_calls w @ [?nil, ?key]
       @ (if UpdateStack_calls w' \<noteq> UpdateStack_calls w then [?nil, ?key] else [])
     \<and> (UpdateStack_calls w' \<noteq> UpdateStack_calls w \<longrightarrow>
          (\<exists>req. UpdateStack_calls w' = UpdateStack_calls w @ [req] \<and> r = UpdateStack a req))
     \<and> map_of (entries w') ?nil = None
     \<and> (UpdateStack_calls w' \<noteq> UpdateStack_calls w \<or> SkipCache p
            \<or> isl (DescribeStacksPages a (Some name)) \<longrightarrow> map_of (entries w') ?key = None)
     \<and> (UpdateStack_calls w' = UpdateStack_calls w \<and> \<not> SkipCache p \<and> \<not> bypass w
            \<and> DescribeStacksPages a (Some name) = Inr pages \<longrightarrow>
          bypass w' = bypass w
          \<and> map_of (entries w') ?key = Some (CachedStacks (concat pages), clock w + 5 * Second))"
  proof cases
    case submitted
    let ?w4 = "w3\<lparr>UpdateStack_calls := UpdateStack_calls w3 @ [req]\<rparr>"
    from returned described submitted
    have w': "w' = cleared name ?w4" and r: "r = UpdateStack a req"
      by (simp_all add: updateStack_def Let_def)
    have calls: "UpdateStack_calls w' = UpdateStack_calls w @ [req]"
      using w' after(2) by (simp add: cleared_simps)
    have log: "Clear_calls w' = Clear_calls w @ [?nil, ?key] @ [?nil, ?key]"
      using w' log3 by (simp add: cleared_simps)
    have "map_of (entries w') ?nil = None" and "map_of (entries w') ?key = None"
      unfolding w' by (rule cleared_entries)+
    with calls log r show ?thesis by simp
  next
    case early
    from returned described early have w': "w' = w3"
      by (auto simp add: updateStack_def Let_def)
    have calls: "UpdateStack_calls w' = UpdateStack_calls w"
      using w' after(2) by simp
    have stored: "map_of (entries w') ?key = Some (CachedStacks (concat pages), clock w + 5 * Second)"
      if "\<not> SkipCache p" "\<not> bypass w" "DescribeStacksPages a (Some name) = Inr pages"
      using describeStack_stores [OF described that(3,1,2)] w' by simp
    show ?thesis
      using calls log3 after(1,3,4) stored w' by simp
  qed
  have hit: "cache_Get ''describeStacks'' (KeyString name) (w'\<lparr>clock := t\<rparr>)
      = Some (CachedStacks (concat pages))"
    if "bypass w' = bypass w" "\<not> bypass w" "t \<le> clock w + 5 * Second"
      "map_of (entries w') ?key = Some (CachedStacks (concat pages), clock w + 5 * Second)"
    using that by (simp add: cache_Get_def)
  from first rest hit show ?thesis
    by (simp add: cache_Get_clock)
qed


text \<open>
  Two calls on the example. The provider rejects the update: its error comes back,
  \<open>Clear\<close> was called four times, and the description is no longer cached. The object
  store refuses the template: the call returns early, \<open>Clear\<close> was called twice only, and
  one nanosecond later the description is still a hit.
\<close>

theorem updateStack_clears_cache_witness:
  "updateStack example_aws_rejecting example_provider ''app'' (Some [])
     [''A'' \<mapsto> ''9''] [(''env'', ''new'')] [] example_world
   = (Some (AwsError ''ValidationError'' ''No updates are to be performed.''),
      example_world\<lparr>
        Clear_calls := [(''describeStacks'', KeyNil), (''describeStacks'', KeyString ''app''),
                        (''describeStacks'', KeyNil), (''describeStacks'', KeyString ''app'')],
        UpdateStack_calls := [example_request]\<rparr>)
   \<and> [example_request] \<noteq> UpdateStack_calls example_world
   \<and> cache_Get ''describeStacks'' (KeyString ''app'')
        (example_world\<lparr>
           Clear_calls := [(''describeStacks'', KeyNil), (''describeStacks'', KeyString ''app''),
                           (''describeStacks'', KeyNil), (''describeStacks'', KeyString ''app'')],
           UpdateStack_calls := [example_request]\<rparr>\<lparr>clock := 1\<rparr>) = None
   \<and> updateStack example_aws_store_down example_provider ''app'' (Some [])
        [''A'' \<mapsto> ''9''] [(''env'', ''new'')] [] example_world
      = (Some (Error ''put failed''),
         example_world\<lparr>entries :=
           [((''describeStacks'', KeyString ''app''), (CachedStacks [example_stack], 5 * Second))],
           Clear_calls := [(''describeStacks'', KeyNil), (''describeStacks'', KeyString ''app'')]\<rparr>)
   \<and> \<not> SkipCache example_provider \<and> \<not> bypass example_world
   \<and> DescribeStacksPages example_aws_store_down (Some ''app'') = Inr [[example_stack]]
   \<and> 1 \<le> clock example_world + 5 * Second
   \<and> cache_Get ''describeStacks'' (KeyString ''app'')
        (example_world\<lparr>entries :=
           [((''describeStacks'', KeyString ''app''), (CachedStacks [example_stack], 5 * Second))],
           Clear_calls := [(''describeStacks'', KeyNil), (''describeStacks'', KeyString ''app'')]\<rparr>
         \<lparr>clock := 1\<rparr>)
      = Some (CachedStacks [example_stack])"
proof -
  let ?w1 = "example_world\<lparr>
        Clear_calls := [(''describeStacks'', KeyNil), (''describeStacks'', KeyString ''app''),
                        (''describeStacks'', KeyNil), (''describeStacks'', KeyString ''app'')],
        UpdateStack_calls := [example_request]\<rparr>"
  let ?w2 = "example_world\<lparr>entries :=
           [((''describeStacks'', KeyString ''app''), (CachedStacks [example_stack], 5 * Second))],
           Clear_calls := [(''describeStacks'', KeyNil), (''describeStacks'', KeyString ''app'')]\<rparr>"
  have rejected:
    "updateStack example_aws_rejecting example_provider ''app'' (Some [])
       [''A'' \<mapsto> ''9''] [(''env'', ''new'')] [] example_world
     = (Some (AwsError ''ValidationError'' ''No updates are to be performed.''), ?w1)"
    by (simp add: Let_def updateStack_def updateStack_request_def objectURL_def
        formationParameters_def parseFormation_def updateStack_tags_def describeStack_def
        describeStacks_def cache_Get_def cache_Set_def cleared_def cache_Clear_def
        stack_key_def example_aws_rejecting_def example_aws_def example_provider_def
        example_formation_def example_stack_def example_request_def example_world_def)
  have refused:
    "updateStack example_aws_store_down example_provider ''app'' (Some [])
       [''A'' \<mapsto> ''9''] [(''env'', ''new'')] [] example_world
     = (Some (Error ''put failed''), ?w2)"
    by (simp add: Let_def updateStack_def updateStack_request_def describeStack_def
        describeStacks_def cache_Get_def cache_Set_def cleared_def cache_Clear_def
        stack_key_def example_aws_store_down_def example_aws_def example_provider_def
        example_world_def)
  have reached: "[example_request] \<noteq> UpdateStack_calls example_world"
    and in_use: "\<not> SkipCache example_provider" "\<not> bypass example_world"
    and pages: "DescribeStacksPages example_aws_store_down (Some ''app'') = Inr [[example_stack]]"
    and soon: "1 \<le> clock example_world + 5 * Second"
    by (simp_all add: example_world_def example_provider_def example_aws_store_down_def
        example_aws_def Second_def)
  have early: "UpdateStack_calls ?w2 = UpdateStack_calls example_world"
    by simp
  from updateStack_clears_cache [OF rejected, where t = 1] reached
  have miss: "cache_Get ''describeStacks'' (KeyString ''app'') (?w1\<lparr>clock := 1\<rparr>) = None"
    by simp
  from updateStack_clears_cache [OF refused, where t = 1 and pages = "[[example_stack]]"]
    early in_use pages soon
  have hit: "cache_Get ''describeStacks'' (KeyString ''app'') (?w2\<lparr>clock := 1\<rparr>)
      = Some (CachedStacks [example_stack])"
    by simp
  from rejected refused reached in_use pages soon miss hit show ?thesis
    by blast
qed

text \<open>
  With the wildcard removing every entry of the operation, the clear by name that
  follows it finds nothing left to remove from the entries; it is visible in the record
  of calls only.
\<close>

lemma cleared_entries_wildcard:
  "entries (cleared name w) = entries (cache_Clear ''describeStacks'' KeyNil w)"
proof -
  have "filter (\<lambda>e. fst e \<noteq> (''describeStacks'', KeyString name))
          (filter (\<lambda>e. fst (fst e) \<noteq> ''describeStacks'') es)
        = filter (\<lambda>e. fst (fst e) \<noteq> ''describeStacks'') es"
    for es :: "((string \<times> cache_key) \<times> (cache_value \<times> int)) list"
    by (induction es) auto
  then show ?thesis
    by (simp add: cleared_def cache_Clear_def del: filter_filter)
qed

text \<open>
  C3, as stated, fails: \<open>SkipCache\<close> is a field of the provider that the helpers test
  before \<open>cache.Set\<close> only; \<open>cache.Get\<close> is called first, whatever the flag says. With
  \<open>SkipCache\<close> set and an older description still cached, \<open>describeStacks\<close> returns the
  cached one, not the provider's.
\<close>

theorem SkipCache_Get_hit_counterexample:
  "SkipCache example_provider_skip
   \<and> describeStacks example_aws example_provider_skip (Some ''app'') example_world_cached
       = (Inr [example_old_stack], example_world_cached)
   \<and> DescribeStacksPages example_aws (Some ''app'') = Inr [[example_stack]]
   \<and> example_old_stack \<noteq> example_stack"
  by (simp add: describeStacks_def cache_Get_def stack_key_def example_provider_skip_def
      example_world_cached_def example_world_def example_aws_def example_old_stack_def
      example_stack_def Second_def)

text \<open>
  C3, amended. When \<open>SkipCache\<close> is set, \<open>describeStacks\<close> and
  \<open>describeContainerInstances\<close> never store a value: they leave the cache as it was.
  They still look the cache up first, and answer with a cached value that has not
  expired; only on a miss do they answer with what the provider returns.
\<close>

theorem SkipCache_skips_Set:
  assumes "SkipCache p"
  shows "describeStacks a p n w =
           (case cache_Get ''describeStacks'' (stack_key n) w of
              Some (CachedStacks stacks) \<Rightarrow> (Inr stacks, w)
            | _ \<Rightarrow> (case DescribeStacksPages a n of
                      Inl err \<Rightarrow> (Inl err, w)
                    | Inr pages \<Rightarrow> (Inr (concat pages), w)))
         \<and> describeContainerInstances a p input w =
           (case cache_Get ''describeContainerInstances'' (KeyContainerInstances input) w of
              Some (CachedContainerInstances res) \<Rightarrow> (Inr res, w)
            | _ \<Rightarrow> (case DescribeContainerInstances a input of
                      Inl err \<Rightarrow> (Inl err, w)
                    | Inr res \<Rightarrow> (Inr res, w)))
         \<and> snd (describeStacks a p n w) = w
         \<and> snd (describeContainerInstances a p input w) = w"
  using assms
  by (simp add: describeStacks_def describeContainerInstances_def Let_def
      split: option.splits cache_value.splits sum.splits)

theorem SkipCache_skips_Set_witness:
  "SkipCache example_provider_skip
   \<and> snd (describeStacks example_aws example_provider_skip (Some ''other'') example_world_cached)
       = example_world_cached
   \<and> fst (describeStacks example_aws example_provider_skip (Some ''other'') example_world_cached)
       = Inr [example_stack]
   \<and> snd (describeContainerInstances example_aws example_provider_skip
        \<lparr>dci_Cluster = ''cluster'', dci_ContainerInstances = []\<rparr> example_world_cached)
       = example_world_cached"
proof -
  have flag: "SkipCache example_provider_skip"
    by (simp add: example_provider_skip_def)
  have miss: "cache_Get ''describeStacks'' (stack_key (Some ''other'')) example_world_cached = None"
    by (simp add: cache_Get_def stack_key_def example_world_cached_def example_world_def)
  from SkipCache_skips_Set [OF flag, of example_aws "Some ''other''" example_world_cached
      "\<lparr>dci_Cluster = ''cluster'', dci_ContainerInstances = []\<rparr>"]
  show ?thesis
    using flag miss
    by (simp add: example_aws_def cache_Get_def example_world_cached_def example_world_def)
qed

text \<open>
  The two release lookups store what they find whether or not \<open>SkipCache\<close> is set: with
  the flag set and an empty cache, \<open>taskRelease\<close> leaves two entries behind, and the
  next lookup of the same task is answered from the cache.
\<close>

lemma taskRelease_stores_with_SkipCache:
  "SkipCache example_provider_skip
   \<and> taskRelease example_aws example_provider_skip ''task-1'' example_world
       = (Inr (Inr ''RABCDEFGHI''),
          example_world\<lparr>entries :=
            [((''taskRelease'', KeyString ''task-1''), (CachedString ''RABCDEFGHI'', 24 * Hour)),
             ((''taskDefinitionRelease'', KeyString ''arn:task-definition''),
              (CachedString ''RABCDEFGHI'', 24 * Hour))]\<rparr>)
   \<and> cache_Get ''taskRelease'' (KeyString ''task-1'')
        (example_world\<lparr>entries :=
            [((''taskRelease'', KeyString ''task-1''), (CachedString ''RABCDEFGHI'', 24 * Hour)),
             ((''taskDefinitionRelease'', KeyString ''arn:task-definition''),
              (CachedString ''RABCDEFGHI'', 24 * Hour))]\<rparr>)
       = Some (CachedString ''RABCDEFGHI'')"
  by (simp add: taskRelease_def taskDefinitionRelease_def describeTasks_def
      describeTaskDefinition_def cache_Get_def cache_Set_def example_aws_def
      example_provider_skip_def example_provider_def example_world_def Hour_def Second_def)

section \<open>Retry with jitter: results\<close>

lemma wrap64_id: "- (2 ^ 63) \<le> x \<Longrightarrow> x < 2 ^ 63 \<Longrightarrow> wrap64 x = x"
  by (simp add: wrap64_def)

lemma sdiv20_pos:
  "20 \<le> (interval::int) \<Longrightarrow> interval sdiv 20 = interval div 20 \<and> 0 < interval div 20"
  by (simp add: signed_divide_int_def sgn_if pos_imp_zdiv_pos_iff)

lemma sdiv20_small: "(interval::int) < 20 \<Longrightarrow> interval sdiv 20 \<le> 0"
  by (auto simp add: signed_divide_int_def sgn_if)

text \<open>One round of the loop, for a function that fails.\<close>

lemma retry_loop_fails:
  assumes "fn (fn_state st) = (Some e, s')"
  shows "retry_loop times' interval fn draws i st =
    (if interval sdiv 20 \<le> 0
     then Some (Panicked InvalidArgumentToIntn,
                st\<lparr>fn_state := s', invocations := invocations st + 1\<rparr>)
     else let st2 = st\<lparr>fn_state := s', invocations := invocations st + 1,
                        drawn := drawn st + 1,
                        sleeps := sleeps st @ [wrap64 (interval + int (draws (drawn st)) mod (interval sdiv 20))]\<rparr>
          in if wrap64 (i + 1) > times' then Some (Returned (Some e), st2)
             else retry_loop times' interval fn draws (wrap64 (i + 1)) st2)"
  using assms
  by (subst retry_loop.simps) (simp add: rand_Intn_def Let_def)

lemma retry_loop_succeeds:
  assumes "fn (fn_state st) = (None, s')"
  shows "retry_loop times' interval fn draws i st =
     Some (Returned None, st\<lparr>fn_state := s', invocations := invocations st + 1\<rparr>)"
  using assms
  by (subst retry_loop.simps) simp

text \<open>
  The run of a function that fails every time, from the counter \<open>i\<close>: \<open>n + 1\<close> more
  invocations when \<open>i + n = times\<close>.
\<close>

lemma retry_loop_always_fails:
  assumes fails: "\<And>s. fst (fn s) \<noteq> None"
    and interval: "20 \<le> interval"
    and i: "0 \<le> i" "i + int n = times'" and times: "times' < 2 ^ 63 - 1"
  shows "\<exists>st'. retry_loop times' interval fn draws i st =
           Some (Returned (fst (fn (state_after fn n (fn_state st)))), st')
         \<and> invocations st' = invocations st + n + 1
         \<and> fn_state st' = state_after fn (Suc n) (fn_state st)
         \<and> (\<exists>slept. sleeps st' = sleeps st @ slept \<and> length slept = n + 1
              \<and> (\<forall>d\<in>set slept. \<exists>jitter. d = wrap64 (interval + jitter)
                     \<and> 0 \<le> jitter \<and> jitter < interval div 20))"
  using i
proof (induction n arbitrary: i st)
  case 0
  obtain e s' where step: "fn (fn_state st) = (Some e, s')"
    using fails [of "fn_state st"] by (cases "fn (fn_state st)") auto
  have "wrap64 (i + 1) = i + 1"
    using 0 times by (intro wrap64_id) simp_all
  with 0 step sdiv20_pos [OF interval] show ?case
    by (auto simp add: retry_loop_fails [where fn = fn and st = st, OF step] Let_def)
next
  case (Suc n)
  obtain e s' where step: "fn (fn_state st) = (Some e, s')"
    using fails [of "fn_state st"] by (cases "fn (fn_state st)") auto
  have w: "wrap64 (i + 1) = i + 1"
    using Suc.prems times by (intro wrap64_id) simp_all
  let ?st2 = "st\<lparr>fn_state := s', invocations := invocations st + 1,
                        drawn := drawn st + 1,
                        sleeps := sleeps st @ [wrap64 (interval + int (draws (drawn st)) mod (interval sdiv 20))]\<rparr>"
  have next_i: "0 \<le> i + 1" "i + 1 + int n = times'"
    using Suc.prems by simp_all
  from Suc.IH [OF next_i, of ?st2]
  obtain st' slept where run: "retry_loop times' interval fn draws (i + 1) ?st2 =
           Some (Returned (fst (fn (state_after fn n s'))), st')"
    and st': "invocations st' = invocations st + 1 + n + 1"
      "fn_state st' = state_after fn (Suc n) s'"
    and slept: "sleeps st' = sleeps ?st2 @ slept" "length slept = n + 1"
      "\<forall>d\<in>set slept. \<exists>jitter. d = wrap64 (interval + jitter)
          \<and> 0 \<le> jitter \<and> jitter < interval div 20"
    by auto
  have jitter: "0 \<le> int (draws k) mod (interval sdiv 20)
      \<and> int (draws k) mod (interval sdiv 20) < interval div 20" for k
    using sdiv20_pos [OF interval] by simp
  let ?slept = "wrap64 (interval + int (draws (drawn st)) mod (interval sdiv 20)) # slept"
  have "retry_loop times' interval fn draws i st =
      retry_loop times' interval fn draws (i + 1) ?st2"
    using sdiv20_pos [OF interval] Suc.prems w
    by (simp add: retry_loop_fails [where fn = fn and st = st, OF step] Let_def)
  with run step have result: "retry_loop times' interval fn draws i st =
      Some (Returned (fst (fn (state_after fn (Suc n) (fn_state st)))), st')"
    by simp
  have counted: "invocations st' = invocations st + Suc n + 1"
    using st'(1) by simp
  have state: "fn_state st' = state_after fn (Suc (Suc n)) (fn_state st)"
    using st'(2) step by simp
  have appended: "sleeps st' = sleeps st @ ?slept" "length ?slept = Suc n + 1"
    using slept(1,2) by simp_all
  have "\<forall>d\<in>set ?slept.
      \<exists>jitter. d = wrap64 (interval + jitter) \<and> 0 \<le> jitter \<and> jitter < interval div 20"
    using slept(3) jitter [of "drawn st"] by auto
  with result counted state appended show ?case
    by blast
qed


lemma retry_always_fails:
  assumes "\<And>s. fst (fn s) \<noteq> None" and "20 \<le> interval"
    and "0 \<le> times'" and "times' < 2 ^ 63 - 1"
  shows "\<exists>st'. retry times' interval fn draws st =
           Some (Returned (fst (fn (state_after fn (nat times') (fn_state st)))), st')
         \<and> invocations st' = invocations st + nat times' + 1
         \<and> fn_state st' = state_after fn (Suc (nat times')) (fn_state st)
         \<and> (\<exists>slept. sleeps st' = sleeps st @ slept \<and> length slept = nat times' + 1
              \<and> (\<forall>d\<in>set slept. \<exists>jitter. d = wrap64 (interval + jitter)
                     \<and> 0 \<le> jitter \<and> jitter < interval div 20))"
  unfolding retry_def
  using assms by (intro retry_loop_always_fails) simp_all

lemma state_after_alwaysFails: "state_after alwaysFails n k = k + n"
  by (induction n arbitrary: k) (simp_all add: alwaysFails_def)

text \<open>
  The specification's example: \<open>retry(3, 10ms, alwaysFails)\<close> invokes the function four
  times and returns the error of the fourth invocation.
\<close>

lemma retry_3_10ms:
  "\<exists>st'. retry 3 (10 * Millisecond) alwaysFails draws fresh_run =
           Some (Returned (Some (Error ''xxx'')), st')
         \<and> invocations st' = 4 \<and> fn_state st' = 4 \<and> length (sleeps st') = 4"
proof -
  have fails: "fst (alwaysFails s) \<noteq> None" for s
    by (simp add: alwaysFails_def)
  from retry_always_fails [of alwaysFails "10 * Millisecond" 3 draws fresh_run, OF fails]
  obtain st' where "retry 3 (10 * Millisecond) alwaysFails draws fresh_run =
      Some (Returned (fst (alwaysFails (state_after alwaysFails (nat 3) (fn_state fresh_run)))), st')"
    "invocations st' = invocations fresh_run + nat 3 + 1"
    "fn_state st' = state_after alwaysFails (Suc (nat 3)) (fn_state fresh_run)"
    "\<exists>slept. sleeps st' = sleeps fresh_run @ slept \<and> length slept = nat 3 + 1"
    by (auto simp add: Millisecond_def)
  then show ?thesis
    by (intro exI [of _ st'])
       (auto simp add: state_after_alwaysFails fresh_run_def alwaysFails_def eval_nat_numeral)
qed

text \<open>Below 20 nanoseconds the first failure ends the call with a panic.\<close>

lemma retry_small_interval_panics:
  assumes "fn (fn_state st) = (Some e, s')" and "interval < 20"
  shows "retry times' interval fn draws st =
           Some (Panicked InvalidArgumentToIntn,
                 st\<lparr>fn_state := s', invocations := invocations st + 1\<rparr>)"
  using assms(1) sdiv20_small [OF assms(2)]
  by (simp add: retry_def retry_loop_fails [where fn = fn and st = st])

text \<open>
  C7 fails on the code for every interval below 20 nanoseconds: \<open>interval/20\<close> is then
  0 (or negative), and \<open>rand.Intn\<close> panics on it before the first sleep. For
  \<open>retry(3, 0, alwaysFails)\<close> the function is invoked once and the call panics; no error
  is returned. (For intervals of at least 20 nanoseconds the claim holds, see
  \<open>retry_always_fails\<close> and \<open>retry_3_10ms\<close>; below, see \<open>retry_small_interval_panics\<close>.)
\<close>

theorem retry_zero_interval_panics:
  "retry 3 0 alwaysFails draws fresh_run =
     Some (Panicked InvalidArgumentToIntn,
           \<lparr>fn_state = 1, invocations = 1, drawn = 0, sleeps = []\<rparr>)"
  by (simp add: retry_def fresh_run_def
      retry_loop_fails [of alwaysFails _ "Error []" 1] alwaysFails_def)



text \<open>
  C4 fails on the code: the jitter is drawn from \<open>[0, interval/20)\<close>, a twentieth (5%) of
  the interval, not from \<open>[0, interval/5)\<close> (20%), though the comment on the line says
  20%. For an interval of 100 milliseconds the one sleep lasts the interval plus less
  than 5 milliseconds, whatever the random source yields; the 20 milliseconds the claim
  allows are never approached.
\<close>

theorem retry_jitter_is_a_twentieth:
  "retry 0 (100 * Millisecond) alwaysFails draws fresh_run =
     Some (Returned (Some (Error [])),
           \<lparr>fn_state = 1, invocations = 1, drawn = 1,
            sleeps = [100 * Millisecond + int (draws 0) mod (5 * Millisecond)]\<rparr>)
   \<and> 0 \<le> int (draws 0) mod (5 * Millisecond)
   \<and> int (draws 0) mod (5 * Millisecond) < 5 * Millisecond
   \<and> 5 * Millisecond = 100 * Millisecond div 20
   \<and> 100 * Millisecond div 5 = 20 * Millisecond"
proof -
  have "wrap64 (100000000 + int (draws 0) mod 5000000) = 100000000 + int (draws 0) mod 5000000"
    by (intro wrap64_id) (simp_all add: pos_mod_bound [THEN less_trans])
  then show ?thesis
    by (simp add: retry_def fresh_run_def Millisecond_def Let_def signed_divide_int_def
        retry_loop_fails [of alwaysFails _ "Error []" 1] alwaysFails_def wrap64_def)
qed

section \<open>Cron job names: results\<close>

text \<open>The encoder on the test vectors of RFC 4648.\<close>

lemma EncodeToString_foobar: "EncodeToString [0x66, 0x6F, 0x6F, 0x62, 0x61, 0x72] = ''MZXW6YTBOI======''"
  by code_simp

lemma EncodeToString_f: "EncodeToString [0x66] = ''MY======''"
  by code_simp

lemma EncodeToString_empty: "EncodeToString [] = ''''"
  by code_simp

lemma length_groups5: "length (groups5 bs) = (length bs + 4) div 5"
  by (induction bs rule: groups5.induct) simp_all

lemma groups5_length5: "g \<in> set (groups5 bs) \<Longrightarrow> length g = 5"
  by (induction bs rule: groups5.induct) auto

lemma length_bits: "length (concat (map bits_of_byte src)) = 8 * length src"
  by (induction src) (simp_all add: bits_of_byte_def)

lemma length_hash_bytes: "length (hash_bytes hash) = 32"
  by (simp add: hash_bytes_def)

lemma group_value_bound:
  assumes "length g = 5"
  shows "group_value g < 32"
proof -
  have "foldl (\<lambda>n b. 2 * n + (if b then 1 else 0)) k g < 2 ^ length g * (k + 1)" for k :: nat
  proof (induction g arbitrary: k)
    case Nil
    show ?case by simp
  next
    case (Cons b g)
    have "foldl (\<lambda>n b. 2 * n + (if b then 1 else 0)) (2 * k + (if b then 1 else 0)) g
        < 2 ^ length g * (2 * k + (if b then 1 else 0) + 1)"
      by (rule Cons.IH)
    also have "\<dots> \<le> 2 ^ length g * (2 * (k + 1))"
      by (intro mult_le_mono2) simp
    finally show ?case by simp
  qed
  from this [of 0] assms show ?thesis
    by (simp add: group_value_def)
qed

lemma length_encodeStd: "length encodeStd = 32"
  by (simp add: encodeStd_def)

lemma length_EncodeToString_hash: "length (EncodeToString (hash_bytes hash)) = 56"
  by (simp add: EncodeToString_def Let_def length_groups5 length_bits length_hash_bytes)

lemma take7_EncodeToString_hash:
  "go_slice (EncodeToString (hash_bytes hash)) 0 7 = Inr (take 7 (EncodeToString (hash_bytes hash)))"
  "length (take 7 (EncodeToString (hash_bytes hash))) = 7"
  "list_all (\<lambda>c. c \<in> set encodeStd) (take 7 (EncodeToString (hash_bytes hash)))"
proof -
  show "go_slice (EncodeToString (hash_bytes hash)) 0 7 = Inr (take 7 (EncodeToString (hash_bytes hash)))"
    by (simp add: go_slice_def length_EncodeToString_hash)
  show "length (take 7 (EncodeToString (hash_bytes hash))) = 7"
    by (simp add: length_EncodeToString_hash)
  let ?groups = "groups5 (concat (map bits_of_byte (hash_bytes hash)))"
  let ?letters = "map (\<lambda>g. encodeStd ! group_value g) ?groups"
  have "length ?letters = 52"
    by (simp add: length_groups5 length_bits length_hash_bytes)
  then have "take 7 (EncodeToString (hash_bytes hash)) = take 7 ?letters"
    by (simp add: EncodeToString_def Let_def)
  moreover have "\<forall>c\<in>set ?letters. c \<in> set encodeStd"
  proof
    fix c assume "c \<in> set ?letters"
    then obtain g where "g \<in> set ?groups" and c: "c = encodeStd ! group_value g" by auto
    then have "group_value g < length encodeStd"
      using group_value_bound [OF groups5_length5] by (simp only: length_encodeStd)
    with c show "c \<in> set encodeStd" by simp
  qed
  ultimately show "list_all (\<lambda>c. c \<in> set encodeStd) (take 7 (EncodeToString (hash_bytes hash)))"
    unfolding list_all_iff by (metis in_set_takeD)
qed


text \<open>
  C9. For every rack (the \<open>RACK\<close> variable of the environment), app, service and job
  name, and whatever the hash function computes, \<open>LongName\<close> returns (it cannot panic)
  the first 47 bytes of the natural name \<open>rack-app-service-job\<close> (all of it when it is
  no longer), a dash, and the first seven base32 letters of the hash of the natural
  name. The result is at most 55 bytes long, so within the 64 of the claim, and it
  is a function of the natural name alone.
\<close>

theorem LongName_bounded:
  "(let natural = Getenv ''RACK'' @ ''-'' @ app_Name a @ ''-'' @ service_Name s @ ''-'' @ name;
        hash7 = take 7 (EncodeToString (hash_bytes (Sum256 natural)))
    in LongName Getenv Sum256
         \<lparr>cron_Name = name, Schedule = sch, Command = cmd,
          cron_Service = Some s, cron_App = Some a\<rparr>
       = Inr (take 47 natural @ ''-'' @ hash7)
       \<and> length hash7 = 7
       \<and> list_all (\<lambda>c. c \<in> set encodeStd) hash7
       \<and> length (take 47 natural @ ''-'' @ hash7) \<le> 55
       \<and> length (take 47 natural @ ''-'' @ hash7) \<le> 64)"
  using take7_EncodeToString_hash
  by (simp add: LongName_def Process_def Let_def go_slice_def)

lemma LongName_example:
  "LongName (\<lambda>v. ''rack'') (\<lambda>data. 0)
     \<lparr>cron_Name = ''nightly'', Schedule = '''', Command = '''',
      cron_Service = Some \<lparr>service_Name = ''web'', Labels = []\<rparr>,
      cron_App = Some \<lparr>app_Name = ''app'', app_Tags = []\<rparr>\<rparr>
   = Inr ''rack-app-web-nightly-AAAAAAA''"
  by code_simp

text \<open>
  \<open>Split\<close> returns at least one part, so \<open>keySlice[len(keySlice)-1]\<close> is in range.
\<close>

lemma Split_nonempty: "Split s sep \<noteq> []"
  by (induction s) (auto split: list.splits)

lemma NewCronJobFromLabel_short:
  "length (Fields v) < 5 \<Longrightarrow> NewCronJobFromLabel key v = Inl SliceBoundsOutOfRange"
  by (simp add: NewCronJobFromLabel_def go_slice_def Let_def)

lemma NewCronJobFromLabel_long:
  "5 \<le> length (Fields v) \<Longrightarrow> \<exists>cronjob. NewCronJobFromLabel key v = Inr cronjob"
  by (simp add: NewCronJobFromLabel_def go_slice_def Let_def)

lemma NewCronJobFromLabel_panic:
  "NewCronJobFromLabel key v = Inl pn \<Longrightarrow> pn = SliceBoundsOutOfRange"
  by (auto simp add: NewCronJobFromLabel_def go_slice_def Let_def split: if_splits)

lemma appCronJobs_labels_panic:
  "appCronJobs_labels a entry labels = Inl pn \<Longrightarrow> pn = SliceBoundsOutOfRange"
  by (induction labels) (auto split: sum.splits dest: NewCronJobFromLabel_panic)

lemma appCronJobs_labels_short:
  "(k, v) \<in> set labels \<Longrightarrow> length (Fields v) < 5 \<Longrightarrow>
   appCronJobs_labels a entry labels = Inl SliceBoundsOutOfRange"
proof (induction labels)
  case Nil
  then show ?case by simp
next
  case (Cons l labels)
  obtain k' v' where l: "l = (k', v')" by (cases l)
  show ?case
  proof (cases "NewCronJobFromLabel k' v'")
    case (Inl pn)
    with l NewCronJobFromLabel_panic [OF Inl] show ?thesis by simp
  next
    case (Inr cronjob)
    with Cons.prems l NewCronJobFromLabel_short [of v k] have "(k, v) \<in> set labels"
      by auto
    with Cons l Inr show ?thesis by simp
  qed
qed

lemma appCronJobs_services_panic:
  "appCronJobs_services a services = Inl pn \<Longrightarrow> pn = SliceBoundsOutOfRange"
  by (induction services) (auto split: sum.splits dest: appCronJobs_labels_panic)

lemma appCronJobs_services_short:
  "(n, entry) \<in> set services \<Longrightarrow> (k, v) \<in> set (LabelsByPrefix entry ''convox.cron'') \<Longrightarrow>
   length (Fields v) < 5 \<Longrightarrow>
   appCronJobs_services a services = Inl SliceBoundsOutOfRange"
proof (induction services)
  case Nil
  then show ?case by simp
next
  case (Cons sv services)
  obtain n' entry' where sv: "sv = (n', entry')" by (cases sv)
  show ?case
  proof (cases "appCronJobs_labels a entry' (LabelsByPrefix entry' ''convox.cron'')")
    case (Inl pn)
    with sv appCronJobs_labels_panic [OF Inl] show ?thesis by simp
  next
    case (Inr cronjobs)
    with Cons.prems sv appCronJobs_labels_short [of k v _ a entry']
    have "(n, entry) \<in> set services" by auto
    with Cons sv Inr show ?thesis by simp
  qed
qed


lemma Validate_labels_values:
  "Validate_labels (map (\<lambda>(k, v). (k, f k v)) labels) = Validate_labels labels"
  by (induction labels) (auto simp add: Let_def)

lemma LabelsByPrefix_values:
  "LabelsByPrefix (entry\<lparr>Labels := map (\<lambda>(k, v). (k, f k v)) (Labels entry)\<rparr>) pre =
     map (\<lambda>(k, v). (k, f k v)) (LabelsByPrefix entry pre)"
  by (simp add: LabelsByPrefix_def filter_map comp_def case_prod_unfold)

lemma Validate_services_values:
  "Validate_services
     (map (\<lambda>(name, entry). (name, entry\<lparr>Labels := map (\<lambda>(k, v). (k, f k v)) (Labels entry)\<rparr>))
        services) = Validate_services services"
  by (induction services)
     (auto simp add: LabelsByPrefix_values Validate_labels_values split: option.splits)

text \<open>
  C10. \<open>NewCronJobFromLabel\<close> panics on every label whose value has fewer than five
  white-space separated fields (the slice \<open>tokens[0:5]\<close> is out of range).
  \<open>Validate\<close> reads the keys of the cron labels only: its verdict is the same whatever
  the values are. So in a manifest that \<open>Validate\<close> accepts, a cron label with fewer
  than five fields makes \<open>appCronJobs\<close> panic.
\<close>

theorem cron_label_fields_unchecked:
  "(length (Fields v) < 5 \<longrightarrow> NewCronJobFromLabel key v = Inl SliceBoundsOutOfRange)
   \<and> Validate (with_label_values f m) = Validate m
   \<and> (Validate m = None \<and> (n, entry) \<in> set (Services m)
        \<and> (k, v) \<in> set (LabelsByPrefix entry ''convox.cron'') \<and> length (Fields v) < 5
      \<longrightarrow> appCronJobs a (Some m) = Inl SliceBoundsOutOfRange)"
  using NewCronJobFromLabel_short [of v key] appCronJobs_services_short [of n entry "Services m" k v a]
  by (simp add: Validate_def with_label_values_def Validate_services_values appCronJobs_def)

text \<open>
  The manifest with the label \<open>convox.cron.myjob\<close> and the schedule
  \<open>@daily bin/cleanup\<close> passes validation, and deriving its cron jobs panics.
\<close>

theorem cron_label_fields_unchecked_witness:
  "length (Fields ''@daily bin/cleanup'') < 5
   \<and> NewCronJobFromLabel ''convox.cron.myjob'' ''@daily bin/cleanup'' = Inl SliceBoundsOutOfRange
   \<and> Validate example_manifest = None
   \<and> (''web'', example_service) \<in> set (Services example_manifest)
   \<and> (''convox.cron.myjob'', ''@daily bin/cleanup'')
        \<in> set (LabelsByPrefix example_service ''convox.cron'')
   \<and> appCronJobs example_app (Some example_manifest) = Inl SliceBoundsOutOfRange"
proof -
  have fields: "length (Fields ''@daily bin/cleanup'') < 5"
    by (simp add: Fields_def space_width_def ascii_spaces_def two_byte_spaces_def
        three_byte_spaces_def)
  have labels: "LabelsByPrefix example_service ''convox.cron'' =
      [(''convox.cron.myjob'', ''@daily bin/cleanup'')]"
    by (simp add: LabelsByPrefix_def HasPrefix_def example_service_def)
  have valid: "Validate example_manifest = None"
    by (simp add: Validate_def example_manifest_def labels regexValidCronLabel_def
        is_letter_def in_range_def)
  have service: "(''web'', example_service) \<in> set (Services example_manifest)"
    by (simp add: example_manifest_def)
  from cron_label_fields_unchecked [where v = "''@daily bin/cleanup''"
      and key = "''convox.cron.myjob''" and m = example_manifest and n = "''web''"
      and entry = example_service and k = "''convox.cron.myjob''" and a = example_app
      and f = "\<lambda>k v. v"]
  show ?thesis
    using fields labels valid service by simp
qed
end
